theory Spec2Isabelle
  imports Complex_Main
begin

section \<open>The \<open>useSor\<close> composable: numbers, errors and collaborators\<close>

text \<open>
  The composable \<open>useSor\<close> coordinates quotes and trades. Its functions are embedded
  below as functions on an explicit record of the reactive references they read and write.
  Embedded are \<open>resetState\<close>, \<open>updateTradeAmounts\<close>, \<open>resetInputAmounts\<close>,
  \<open>handleAmountChange\<close>, \<open>calcPriceImpact\<close>, \<open>txHandler\<close>, \<open>trade\<close>,
  \<open>calculateEthPriceInToken\<close>, \<open>getMaxIn\<close>, \<open>getMinOut\<close>, \<open>getQuote\<close>, \<open>formatAmount\<close>,
  \<open>getTokenDecimals\<close> and \<open>adjustedPiAmount\<close>; of \<open>onMounted\<close>, \<open>initSor\<close> and \<open>fetchPools\<close>
  only the state they leave (\<open>poolsFetched\<close>).

  Three kinds of values occur:
  \<^item> \<open>BigNumber\<close> (ethers): an unbounded integer, type \<open>int\<close>. \<open>mul\<close>, \<open>sub\<close>, \<open>abs\<close> and
    \<open>gt\<close> are the integer operations; \<open>div\<close> truncates towards zero and throws on a zero
    divisor (\<open>bn_div\<close>); \<open>pow\<close> throws when its exponent is \<open>undefined\<close>.
  \<^item> JavaScript numbers (\<open>priceImpact\<close>, \<open>slippageBufferRate\<close>, the two thresholds): type
    \<open>real\<close>, the value the number has. The sum \<open>1 + slippageBufferRate.value\<close> and its
    \<open>String\<close> depend on how doubles round and print, so they are not computed here but
    taken from the environment (\<open>number_plus\<close> and \<open>number_String\<close>). \<open>toFixed(18)\<close> is
    the rounding the language defines on the value. \<open>Number(formatUnits(x))\<close> and the
    quotient in \<open>calculateEthPriceInToken\<close> are taken exactly, without the rounding to the
    nearest double; comparisons and \<open>Math.max\<close> are exact.
  \<^item> strings (amount inputs, addresses, messages): type \<open>string\<close>.
\<close>

datatype error =
    DivisionByZero        \<comment> \<open>\<open>BigNumber.div\<close> by zero\<close>
  | InvalidDecimal        \<comment> \<open>\<open>parseFixed\<close>: not a decimal, or more fractional digits than decimals\<close>
  | InvalidBigNumber      \<comment> \<open>\<open>BigNumber.from(undefined)\<close>\<close>
  | TypeError             \<comment> \<open>a property read on \<open>undefined\<close>\<close>
  | Rejected string       \<comment> \<open>a collaborator threw, or its promise rejected, with this message\<close>

fun message :: "error \<Rightarrow> string" where
  "message DivisionByZero = ''division-by-zero''"
| "message InvalidDecimal = ''invalid decimal value''"
| "message InvalidBigNumber = ''invalid BigNumber value''"
| "message TypeError = ''Cannot read properties of undefined''"
| "message (Rejected m) = m"

datatype WrapType = NonWrap | Wrap | Unwrap

datatype SwapType = SwapExactIn | SwapExactOut

definition ONE :: int where
  "ONE = 10 ^ 18"

definition MIN_PRICE_IMPACT :: real where
  "MIN_PRICE_IMPACT = 1 / 10000"

definition HIGH_PRICE_IMPACT_THRESHOLD :: real where
  "HIGH_PRICE_IMPACT_THRESHOLD = 5 / 100"

definition bn_div :: "int \<Rightarrow> int \<Rightarrow> error + int" where
  "bn_div a b =
     (if b = 0 then Inl DivisionByZero else Inr (sgn a * sgn b * (\<bar>a\<bar> div \<bar>b\<bar>)))"

definition bn_pow10 :: "nat option \<Rightarrow> error + int" where
  \<comment> \<open>\<open>BigNumber.from(10).pow(d)\<close>\<close>
  "bn_pow10 d = (case d of None \<Rightarrow> Inl InvalidBigNumber | Some n \<Rightarrow> Inr (10 ^ n))"

subsection \<open>Library conversions between strings, numbers and fixed point\<close>

definition is_digit :: "char \<Rightarrow> bool" where
  "is_digit c = (c \<in> set ''0123456789'')"

definition digit_of :: "char \<Rightarrow> nat" where
  "digit_of c = of_char c - of_char CHR ''0''"

definition nat_of_digits :: "string \<Rightarrow> nat" where
  "nat_of_digits ds = foldl (\<lambda>n c. 10 * n + digit_of c) 0 ds"

fun strip_zeros :: "string \<Rightarrow> string" where
  \<comment> \<open>drops the zeros at the front of a reversed digit string\<close>
  "strip_zeros [] = []"
| "strip_zeros (c # cs) = (if c = CHR ''0'' then strip_zeros cs else c # cs)"

definition split_dot :: "string \<Rightarrow> string list" where
  \<comment> \<open>\<open>value.split(".")\<close> for a string with at most two dots; a third component stands
      for everything after the second dot\<close>
  "split_dot v =
     (let whole = takeWhile (\<lambda>c. c \<noteq> CHR ''.'') v;
          rest = dropWhile (\<lambda>c. c \<noteq> CHR ''.'') v
      in case rest of
           [] \<Rightarrow> [whole]
         | _ # r \<Rightarrow>
             (let frac = takeWhile (\<lambda>c. c \<noteq> CHR ''.'') r;
                  rest' = dropWhile (\<lambda>c. c \<noteq> CHR ''.'') r
              in case rest' of [] \<Rightarrow> [whole, frac] | _ # r' \<Rightarrow> [whole, frac, r']))"

definition parseFixed :: "string \<Rightarrow> nat option \<Rightarrow> error + int" where
  \<comment> \<open>ethers' \<open>parseFixed(value, decimals)\<close>: the value must match \<open>/^-?[0-9.]+$/\<close>, must
      not be \<open>"."\<close>, has at most one dot and at most \<open>decimals\<close> fractional digits once the
      trailing zeros are dropped; \<open>decimals\<close> is 0 when \<open>undefined\<close>.\<close>
  "parseFixed v decimals =
     (let d = (case decimals of None \<Rightarrow> 0 | Some n \<Rightarrow> n);
          negative = (take 1 v = ''-'');
          u = (if negative then drop 1 v else v)
      in if u = [] \<or> \<not> list_all (\<lambda>c. is_digit c \<or> c = CHR ''.'') u then Inl InvalidDecimal
         else if u = ''.'' then Inl InvalidDecimal
         else
           (let comps = split_dot u in
            if length comps > 2 then Inl InvalidDecimal
            else
              (let whole = (if hd comps = [] then ''0'' else hd comps);
                   fraction0 = (if length comps < 2 \<or> comps ! 1 = [] then ''0'' else comps ! 1);
                   fraction = rev (strip_zeros (rev fraction0))
               in if length fraction > d then Inl InvalidDecimal
                  else
                    (let wei = int (nat_of_digits whole) * 10 ^ d
                               + int (nat_of_digits fraction) * 10 ^ (d - length fraction)
                     in Inr (if negative then - wei else wei)))))"

definition parseUnits :: "string \<Rightarrow> nat option \<Rightarrow> error + int" where
  \<comment> \<open>ethers' \<open>parseUnits(value, decimals)\<close>: 18 decimals when \<open>undefined\<close>\<close>
  "parseUnits v decimals =
     parseFixed v (Some (case decimals of None \<Rightarrow> 18 | Some n \<Rightarrow> n))"

definition parseUnits_toFixed :: "real option \<Rightarrow> error + int" where
  \<comment> \<open>\<open>parseUnits(x.toFixed(18))\<close> for a number of value \<open>x\<close> (\<open>None\<close> is \<open>NaN\<close>):
      \<open>toFixed(18)\<close> prints the integer \<open>n\<close> for which \<open>n / 10^18\<close> is nearest to the
      magnitude of \<open>x\<close>, the larger of two, and prints exponent notation from \<open>10^21\<close> on,
      which \<open>parseUnits\<close> refuses, as it refuses \<open>"NaN"\<close>.\<close>
  "parseUnits_toFixed x =
     (case x of
        None \<Rightarrow> Inl InvalidDecimal
      | Some q \<Rightarrow>
          if \<bar>q\<bar> \<ge> 10 ^ 21 then Inl InvalidDecimal
          else Inr (if q < 0 then - \<lfloor>\<bar>q\<bar> * 10 ^ 18 + 1 / 2\<rfloor>
                    else \<lfloor>q * 10 ^ 18 + 1 / 2\<rfloor>))"

function string_of_nat :: "nat \<Rightarrow> string" where
  \<comment> \<open>\<open>toString()\<close> of a non-negative \<open>BigNumber\<close>\<close>
  "string_of_nat n =
     (if n < 10 then [''0123456789'' ! n]
      else string_of_nat (n div 10) @ [''0123456789'' ! (n mod 10)])"
  by pat_completeness auto
termination
  by (relation "measure id") auto

declare string_of_nat.simps [simp del]

definition formatFixed :: "int \<Rightarrow> nat option \<Rightarrow> string" where
  \<comment> \<open>ethers' \<open>formatFixed(value, decimals)\<close>: the whole part, and unless \<open>decimals\<close> is 0
      (or \<open>undefined\<close>) a dot and the fraction, padded to \<open>decimals\<close> digits and then
      stripped of trailing zeros down to one digit\<close>
  "formatFixed v decimals =
     (let d = (case decimals of None \<Rightarrow> 0 | Some n \<Rightarrow> n);
          negative = (v < 0);
          u = nat \<bar>v\<bar>;
          digits = string_of_nat (u mod 10 ^ d);
          padded = replicate (d - length digits) CHR ''0'' @ digits;
          stripped = rev (strip_zeros (rev padded));
          fraction = (if stripped = [] then ''0'' else stripped);
          whole = string_of_nat (u div 10 ^ d);
          r = (if d = 0 then whole else whole @ ''.'' @ fraction)
      in if negative then ''-'' @ r else r)"

definition formatUnits :: "int \<Rightarrow> nat option \<Rightarrow> string" where
  \<comment> \<open>ethers' \<open>formatUnits(value, decimals)\<close>: 18 decimals when \<open>undefined\<close>\<close>
  "formatUnits v decimals =
     formatFixed v (Some (case decimals of None \<Rightarrow> 18 | Some n \<Rightarrow> n))"

definition Number_formatUnits :: "int \<Rightarrow> real" where
  \<comment> \<open>\<open>Number(formatUnits(x))\<close>: \<open>formatUnits\<close> prints \<open>x / 10^18\<close> as a decimal\<close>
  "Number_formatUnits x = of_int x / 10 ^ 18"


definition toLowerCase :: "string \<Rightarrow> string" where
  "toLowerCase v =
     map (\<lambda>c. case map_of (zip ''ABCDEFGHIJKLMNOPQRSTUVWXYZ''
                                    ''abcdefghijklmnopqrstuvwxyz'') c of
                None \<Rightarrow> c
              | Some l \<Rightarrow> l) v"

fun indexOf :: "string list \<Rightarrow> string \<Rightarrow> int" where
  \<comment> \<open>\<open>Array.prototype.indexOf\<close>: the first position, or \<open>-1\<close>\<close>
  "indexOf [] a = - 1"
| "indexOf (x # xs) a =
     (if x = a then 0 else (let i = indexOf xs a in if i < 0 then - 1 else i + 1))"

definition at_index :: "'a list \<Rightarrow> int \<Rightarrow> 'a option" where
  \<comment> \<open>\<open>xs[i]\<close>: \<open>undefined\<close> out of range\<close>
  "at_index xs i = (if 0 \<le> i \<and> i < int (length xs) then Some (xs ! nat i) else None)"

definition AddressZero :: string where
  "AddressZero = ''0x0000000000000000000000000000000000000000''"

subsection \<open>Data\<close>

record TokenInfo =
  decimals :: nat
  symbol :: string

record SwapV2 =
  poolId :: string
  assetInIndex :: nat
  assetOutIndex :: nat
  amount :: string

text \<open>
  The \<open>result\<close> object of a route. The composable compares two of them with \<open>!==\<close>, which
  is object identity: \<open>oid\<close> is the object's identity (its address), so two results are the
  same object iff their \<open>oid\<close>s are equal. Of its other fields the composable reads only
  \<open>swaps\<close> and \<open>tokenAddresses\<close>.
\<close>

record SwapInfo =
  oid :: nat
  tokenAddresses :: "string list"
  swaps :: "SwapV2 list"

text \<open>
  \<open>marketSpNormalised\<close> is a numeric string that the composable reads only through
  \<open>Number(...)\<close>; the field holds the value of the number read, which is the value of a
  double (\<open>None\<close> for \<open>NaN\<close>).
\<close>

record SorReturn =
  hasSwaps :: bool
  tokenIn :: string
  tokenOut :: string
  returnDecimals :: nat
  returnAmount :: int
  marketSpNormalised :: "real option"
  result :: SwapInfo

record TradeQuote =
  feeAmountInToken :: string
  feeAmountOutToken :: string
  maximumInAmount :: int
  minimumOutAmount :: int

record TransactionResponse =
  hash :: string

record SorManager =
  hasPoolData :: bool
  selectedPools :: "string list"

datatype TransactionAction = ActWrap | ActUnwrap | ActTrade

text \<open>The calls the composable makes to its collaborators, logged in the order made.\<close>

datatype call =
    CallGetWrapOutput string WrapType int
  | CallSetCostOutputToken string "nat option" real
  | CallGetBestSwap string string "nat option" "nat option" SwapType int
  | CallConvertStEthWrap int bool
  | CallQueryBatchSwap SwapType "SwapV2 list" "string list"
  | CallWrap string int
  | CallUnwrap string int
  | CallSwapIn SorReturn int int
  | CallSwapOut SorReturn int int
  | CallAddTransaction string TransactionAction TradeQuote
  | CallTxListener string
  | CallSuccessCallback
  | CallTrackGoal string
  | CallCaptureException error

text \<open>
  The references of one \<open>useSor\<close> instance: the props it is given, the references it
  creates, the module's \<open>state\<close> (\<open>highPriceImpact\<close>, \<open>submissionError\<close>), and the log of
  collaborator calls. \<open>sorManager\<close> is \<open>None\<close> until \<open>initSor\<close> has run. The props
  \<open>tokenIn\<close> and \<open>tokenOut\<close> are \<open>tokenInInfo\<close> and \<open>tokenOutInfo\<close> here.
\<close>

record sor_state =
  exactIn :: bool
  tokenInAddressInput :: string
  tokenInAmountInput :: string
  tokenOutAddressInput :: string
  tokenOutAmountInput :: string
  wrapType :: WrapType
  tokenInAmountScaled :: "int option"
  tokenOutAmountScaled :: "int option"
  tokenInInfo :: TokenInfo
  tokenOutInfo :: TokenInfo
  slippageBufferRate :: real
  sorManager :: "SorManager option"
  pools :: "string list"
  sorReturn :: SorReturn
  trading :: bool
  confirming :: bool
  priceImpact :: real
  latestTxHash :: string
  poolsLoading :: bool
  highPriceImpact :: bool
  submissionError :: "string option"
  calls :: "call list"

text \<open>
  The collaborators that answer at once: the token service, the price service, the
  network configuration and the number formatter \<open>fNum2\<close>, applied with the options of
  \<open>formatAmount\<close>. With them come the two operations of the language on numbers that
  \<open>getMaxIn\<close> and \<open>getMinOut\<close> use: \<open>number_plus a b\<close> is the number \<open>a + b\<close>, the sum
  rounded to a double, and \<open>number_String x\<close> is the string \<open>String(x)\<close>.
\<close>

record deps =
  getToken :: "string \<Rightarrow> TokenInfo option"
  priceFor :: "string \<Rightarrow> real"
  nativeAssetAddress :: string
  NATIVE_ASSET_ADDRESS :: string
  config_wstETH :: string
  app_wstETH :: string
  isStEthAddress :: "string \<Rightarrow> bool"
  isSameAddress :: "string \<Rightarrow> string \<Rightarrow> bool"
  isMainnet :: bool
  fNum2 :: "string \<Rightarrow> string"
  number_plus :: "real \<Rightarrow> real \<Rightarrow> real"
  number_String :: "real \<Rightarrow> string"

text \<open>
  The collaborators that answer through a promise; each gives the promise's outcome,
  \<open>Inl\<close> a rejection.
\<close>

record world =
  getWrapOutput :: "string \<Rightarrow> WrapType \<Rightarrow> int \<Rightarrow> error + int"
  setCostOutputToken :: "string \<Rightarrow> nat option \<Rightarrow> real \<Rightarrow> error + unit"
  getBestSwap ::
    "string \<Rightarrow> string \<Rightarrow> nat option \<Rightarrow> nat option \<Rightarrow> SwapType \<Rightarrow> int \<Rightarrow> error + SorReturn"
  convertStEthWrap :: "int \<Rightarrow> bool \<Rightarrow> error + int"
  queryBatchSwap :: "SwapType \<Rightarrow> SwapV2 list \<Rightarrow> string list \<Rightarrow> error + int list"
  wrap :: "string \<Rightarrow> int \<Rightarrow> error + TransactionResponse"
  unwrap :: "string \<Rightarrow> int \<Rightarrow> error + TransactionResponse"
  swapIn :: "SorReturn \<Rightarrow> int \<Rightarrow> int \<Rightarrow> error + TransactionResponse"
  swapOut :: "SorReturn \<Rightarrow> int \<Rightarrow> int \<Rightarrow> error + TransactionResponse"

section \<open>Slippage limits and the quote\<close>

definition getMaxIn :: "deps \<Rightarrow> sor_state \<Rightarrow> int \<Rightarrow> error + int" where
  "getMaxIn d s amt =
     (case parseFixed (number_String d (number_plus d 1 (slippageBufferRate s))) (Some 18) of
        Inl e \<Rightarrow> Inl e
      | Inr f \<Rightarrow> bn_div (amt * f) ONE)"

definition getMinOut :: "deps \<Rightarrow> sor_state \<Rightarrow> int \<Rightarrow> error + int" where
  "getMinOut d s amt =
     (case parseFixed (number_String d (number_plus d 1 (slippageBufferRate s))) (Some 18) of
        Inl e \<Rightarrow> Inl e
      | Inr f \<Rightarrow> bn_div (amt * ONE) f)"

definition getQuote :: "deps \<Rightarrow> sor_state \<Rightarrow> error + TradeQuote" where
  "getQuote d s =
     (case (case tokenInAmountScaled s of None \<Rightarrow> Inr 0 | Some a \<Rightarrow> getMaxIn d s a) of
        Inl e \<Rightarrow> Inl e
      | Inr maxIn \<Rightarrow>
          (case (case tokenOutAmountScaled s of None \<Rightarrow> Inr 0 | Some a \<Rightarrow> getMinOut d s a) of
             Inl e \<Rightarrow> Inl e
           | Inr minOut \<Rightarrow>
               Inr \<lparr>feeAmountInToken = ''0'', feeAmountOutToken = ''0'',
                    maximumInAmount = maxIn, minimumOutAmount = minOut\<rparr>))"

section \<open>Price impact\<close>

definition calcPriceImpact :: "nat option \<Rightarrow> int \<Rightarrow> int \<Rightarrow> SorReturn \<Rightarrow> error + int" where
  "calcPriceImpact tokenDecimals tokenAmount tokenAmountScaled swapReturn =
     (case bn_pow10 tokenDecimals of
        Inl e \<Rightarrow> Inl e
      | Inr divScale \<Rightarrow>
          (let wadScale = 10 ^ 18 in
           case bn_div (tokenAmountScaled * divScale) tokenAmount of
             Inl e \<Rightarrow> Inl e
           | Inr effectivePrice \<Rightarrow>
               (case parseUnits_toFixed (marketSpNormalised swapReturn) of
                  Inl e \<Rightarrow> Inl e
                | Inr sp \<Rightarrow>
                    (case bn_div (effectivePrice * wadScale) sp of
                       Inl e \<Rightarrow> Inl e
                     | Inr q \<Rightarrow> Inr (q - ONE)))))"


section \<open>Asynchronous functions as segments\<close>

text \<open>
  An \<open>async\<close> function runs without interruption up to an \<open>await\<close>, where it hands a
  request to a collaborator and is suspended; other functions of the composable may run
  before the answer arrives. Each such function is embedded as its segments: the first
  one runs from the call to the first \<open>await\<close> (or to the end), and one more segment per
  \<open>await\<close> runs from the answer to the next \<open>await\<close>. A segment ends in \<open>Return\<close> (the
  promise resolves), \<open>Throw\<close> (it rejects; what was written before stays written), or
  \<open>Await\<close> with the local variables the rest of the function still reads.
\<close>

record quote_locals =
  l_exactIn :: bool          \<comment> \<open>the branch of \<open>if (exactIn.value)\<close> taken\<close>
  l_amount :: string
  l_tokenInAddress :: string
  l_tokenOutAddress :: string
  l_tokenInDecimals :: "nat option"
  l_tokenOutDecimals :: "nat option"

datatype pending =
    AwaitGetWrapOutput bool "nat option" string WrapType int
      \<comment> \<open>the branch taken, the decimals that format the answer; wrapper, kind, amount\<close>
  | AwaitSetSwapCost quote_locals string "nat option" real
  | AwaitGetBestSwap quote_locals int
  | AwaitAdjustedPiAmount quote_locals int SorReturn int bool
      \<comment> \<open>the scaled amount, \<open>swapReturn\<close>, the amount to adjust, and whether
          \<open>convertStEthWrap\<close> was called for it\<close>
  | AwaitQueryBatchSwap SwapInfo SwapType
  | AwaitWrap "(error + unit) option" string int
  | AwaitUnwrap "(error + unit) option" string int
  | AwaitSwapIn "(error + unit) option" SorReturn int int
  | AwaitSwapOut "(error + unit) option" SorReturn int int

datatype step =
    Return sor_state
  | Throw error sor_state
  | Await pending sor_state

definition record_call :: "call \<Rightarrow> sor_state \<Rightarrow> sor_state" where
  "record_call c s = s\<lparr>calls := calls s @ [c]\<rparr>"

definition resetState :: "sor_state \<Rightarrow> sor_state" where
  "resetState s = s\<lparr>highPriceImpact := False, submissionError := None\<rparr>"

definition getTokenDecimals :: "deps \<Rightarrow> string \<Rightarrow> nat option" where
  "getTokenDecimals d a = map_option decimals (getToken d a)"

definition formatAmount :: "deps \<Rightarrow> string \<Rightarrow> string" where
  "formatAmount d a = fNum2 d a"

definition calculateEthPriceInToken :: "deps \<Rightarrow> string \<Rightarrow> real" where
  "calculateEthPriceInToken d tokenAddress =
     (let ethPriceFiat = priceFor d (nativeAssetAddress d);
          tokenPriceFiat = priceFor d tokenAddress
      in if tokenPriceFiat = 0 then 0 else ethPriceFiat / tokenPriceFiat)"

subsection \<open>\<open>resetInputAmounts\<close> and \<open>handleAmountChange\<close>\<close>

definition resetInputAmounts :: "string \<Rightarrow> sor_state \<Rightarrow> sor_state" where
  "resetInputAmounts amt s =
     s\<lparr>tokenInAmountInput := amt,
       tokenOutAmountInput := amt,
       priceImpact := 0,
       sorReturn := (sorReturn s)\<lparr>hasSwaps := False, returnAmount := 0\<rparr>\<rparr>"

definition clearDerived :: "sor_state \<Rightarrow> sor_state" where
  \<comment> \<open>\<open>if (exactIn.value) tokenOutAmountInput.value = ''; else tokenInAmountInput.value = ''\<close>\<close>
  "clearDerived s =
     (if exactIn s then s\<lparr>tokenOutAmountInput := []\<rparr> else s\<lparr>tokenInAmountInput := []\<rparr>)"

definition hac_start :: "deps \<Rightarrow> sor_state \<Rightarrow> step" where
  "hac_start d s =
     (let amt = (if exactIn s then tokenInAmountInput s else tokenOutAmountInput s);
          zeroValueTrade = (amt = [] \<or> amt = ''0'')
      in if zeroValueTrade then Return (resetInputAmounts amt s)
         else
           (let tokenInAddress = tokenInAddressInput s;
                tokenOutAddress = tokenOutAddressInput s
            in if tokenInAddress = [] \<or> tokenOutAddress = [] then Return (clearDerived s)
               else
                 (let tokenInDecimals = getTokenDecimals d (tokenInAddressInput s);
                      tokenOutDecimals = getTokenDecimals d (tokenOutAddressInput s)
                  in if wrapType s \<noteq> NonWrap then
                       (let wrapper =
                              (if wrapType s = Wrap then tokenOutAddress else tokenInAddress)
                        in if exactIn s then
                             (let s1 = s\<lparr>tokenInAmountInput := amt\<rparr> in
                              case parseFixed amt tokenInDecimals of
                                Inl e \<Rightarrow> Throw e s1
                              | Inr a \<Rightarrow>
                                  Await (AwaitGetWrapOutput True tokenInDecimals
                                           wrapper (wrapType s) a)
                                    (record_call (CallGetWrapOutput wrapper (wrapType s) a) s1))
                           else
                             (let s1 = s\<lparr>tokenOutAmountInput := amt\<rparr>;
                                  kind = (if wrapType s = Wrap then Unwrap else Wrap)
                              in case parseFixed amt tokenOutDecimals of
                                   Inl e \<Rightarrow> Throw e s1
                                 | Inr a \<Rightarrow>
                                     Await (AwaitGetWrapOutput False tokenOutDecimals
                                              wrapper kind a)
                                       (record_call (CallGetWrapOutput wrapper kind a) s1)))
                     else
                       (case sorManager s of
                          None \<Rightarrow> Return (clearDerived s)
                        | Some m \<Rightarrow>
                            if \<not> hasPoolData m then Return (clearDerived s)
                            else
                              (let l = \<lparr>l_exactIn = exactIn s, l_amount = amt,
                                        l_tokenInAddress = tokenInAddress,
                                        l_tokenOutAddress = tokenOutAddress,
                                        l_tokenInDecimals = tokenInDecimals,
                                        l_tokenOutDecimals = tokenOutDecimals\<rparr>;
                                   costToken = (if exactIn s then tokenOutAddressInput s
                                                else tokenInAddressInput s);
                                   costDecimals = (if exactIn s then tokenOutDecimals
                                                   else tokenInDecimals);
                                   price = calculateEthPriceInToken d costToken
                               in Await (AwaitSetSwapCost l costToken costDecimals price)
                                    (record_call (CallSetCostOutputToken costToken costDecimals price)
                                       s))))))"

definition hac_after_getWrapOutput ::
  "bool \<Rightarrow> nat option \<Rightarrow> error + int \<Rightarrow> sor_state \<Rightarrow> step" where
  "hac_after_getWrapOutput isExactIn dec answer s =
     (case answer of
        Inl e \<Rightarrow> Throw e s
      | Inr out \<Rightarrow>
          (let s1 = (if isExactIn then s\<lparr>tokenOutAmountInput := formatFixed out dec\<rparr>
                     else s\<lparr>tokenInAmountInput := formatFixed out dec\<rparr>)
           in Return (s1\<lparr>sorReturn := (sorReturn s1)\<lparr>hasSwaps := False\<rparr>,
                          priceImpact := 0\<rparr>)))"

definition hac_after_setSwapCost ::
  "quote_locals \<Rightarrow> error + unit \<Rightarrow> sor_state \<Rightarrow> step" where
  "hac_after_setSwapCost l answer s =
     (case answer of
        Inl e \<Rightarrow> Throw e s
      | Inr _ \<Rightarrow>
          (case parseUnits (l_amount l)
                  (if l_exactIn l then l_tokenInDecimals l else l_tokenOutDecimals l) of
             Inl e \<Rightarrow> Throw e s
           | Inr scaled \<Rightarrow>
               (case sorManager s of
                  None \<Rightarrow> Throw TypeError s
                | Some _ \<Rightarrow>
                    Await (AwaitGetBestSwap l scaled)
                      (record_call (CallGetBestSwap (l_tokenInAddress l) (l_tokenOutAddress l)
                              (l_tokenInDecimals l) (l_tokenOutDecimals l)
                              (if l_exactIn l then SwapExactIn else SwapExactOut) scaled)
                         s))))"

definition hac_finish :: "sor_state \<Rightarrow> step" where
  \<comment> \<open>the two statements after the \<open>if (exactIn.value) ... else ...\<close>\<close>
  "hac_finish s =
     (case sorManager s of
        None \<Rightarrow> Throw TypeError s
      | Some m \<Rightarrow>
          (let s1 = s\<lparr>pools := selectedPools m\<rparr> in
           Return (s1\<lparr>highPriceImpact := (priceImpact s1 \<ge> HIGH_PRICE_IMPACT_THRESHOLD)\<rparr>)))"

definition adjustedPiAmount_converts :: "deps \<Rightarrow> string \<Rightarrow> bool" where
  \<comment> \<open>the condition under which \<open>adjustedPiAmount\<close> calls \<open>convertStEthWrap\<close>\<close>
  "adjustedPiAmount_converts d address = (isSameAddress d address (app_wstETH d) \<and> isMainnet d)"

definition store_route :: "deps \<Rightarrow> quote_locals \<Rightarrow> SorReturn \<Rightarrow> sor_state \<Rightarrow> sor_state" where
  \<comment> \<open>\<open>sorReturn.value = swapReturn\<close>, and the amount of the other side is shown\<close>
  "store_route d l swapReturn s =
     (let s1 = s\<lparr>sorReturn := swapReturn\<rparr>;
          tokenAmount = returnAmount swapReturn;
          shown = (if tokenAmount > 0
                   then formatAmount d (formatUnits tokenAmount
                          (if l_exactIn l then l_tokenOutDecimals l
                           else l_tokenInDecimals l))
                   else [])
      in if l_exactIn l then s1\<lparr>tokenOutAmountInput := shown\<rparr>
         else s1\<lparr>tokenInAmountInput := shown\<rparr>)"

definition hac_after_getBestSwap ::
  "deps \<Rightarrow> quote_locals \<Rightarrow> int \<Rightarrow> error + SorReturn \<Rightarrow> sor_state \<Rightarrow> step" where
  "hac_after_getBestSwap d l scaled answer s =
     (case answer of
        Inl e \<Rightarrow> Throw e s
      | Inr swapReturn \<Rightarrow>
          (let s2 = store_route d l swapReturn s;
               tokenAmount = returnAmount swapReturn
           in if \<not> hasSwaps (sorReturn s2) then hac_finish (s2\<lparr>priceImpact := 0\<rparr>)
              else if adjustedPiAmount_converts d (l_tokenOutAddress l)
              then Await (AwaitAdjustedPiAmount l scaled swapReturn tokenAmount True)
                     (record_call (CallConvertStEthWrap tokenAmount True) s2)
              else Await (AwaitAdjustedPiAmount l scaled swapReturn tokenAmount False) s2))"

definition hac_after_adjustedPiAmount ::
  "quote_locals \<Rightarrow> int \<Rightarrow> SorReturn \<Rightarrow> int \<Rightarrow> bool \<Rightarrow> error + int \<Rightarrow> sor_state \<Rightarrow> step" where
  \<comment> \<open>\<open>answer\<close> is the outcome of \<open>convertStEthWrap\<close>; without that call the promise of
      \<open>adjustedPiAmount\<close> resolves with the amount it was given\<close>
  "hac_after_adjustedPiAmount l scaled swapReturn tokenAmount converting answer s =
     (case (if converting then answer else Inr tokenAmount) of
        Inl e \<Rightarrow> Throw e s
      | Inr adjusted \<Rightarrow>
          (case calcPriceImpact
                  (if l_exactIn l then l_tokenOutDecimals l else l_tokenInDecimals l)
                  adjusted scaled swapReturn of
             Inl e \<Rightarrow> Throw e s
           | Inr priceImpactCalc \<Rightarrow>
               hac_finish
                 (s\<lparr>priceImpact := max (Number_formatUnits priceImpactCalc)
                                      MIN_PRICE_IMPACT\<rparr>)))"


subsection \<open>\<open>updateTradeAmounts\<close>\<close>

definition uta_start :: "sor_state \<Rightarrow> step" where
  "uta_start s =
     (case sorManager s of
        None \<Rightarrow> Return s
      | Some _ \<Rightarrow>
          if hasSwaps (sorReturn s) \<and> \<not> confirming s then
            (let res = result (sorReturn s);
                 swapType = (if exactIn s then SwapExactIn else SwapExactOut)
             in Await (AwaitQueryBatchSwap res swapType)
                  (record_call (CallQueryBatchSwap swapType (swaps res) (tokenAddresses res)) s))
          else Return s)"

definition uta_after_queryBatchSwap ::
  "deps \<Rightarrow> SwapInfo \<Rightarrow> SwapType \<Rightarrow> error + int list \<Rightarrow> sor_state \<Rightarrow> step" where
  "uta_after_queryBatchSwap d res swapType answer s =
     (case answer of
        Inl e \<Rightarrow> Throw e s
      | Inr deltas \<Rightarrow>
          if oid res \<noteq> oid (result (sorReturn s)) then Return s
          else if length deltas \<ge> 2 then
            (let tokenInDecimals = getTokenDecimals d (tokenInAddressInput s);
                 tokenOutDecimals = getTokenDecimals d (tokenOutAddressInput s);
                 tokenInAddress0 =
                   (if tokenInAddressInput s = NATIVE_ASSET_ADDRESS d then AddressZero
                    else tokenInAddressInput s);
                 tokenOutAddress0 =
                   (if tokenOutAddressInput s = NATIVE_ASSET_ADDRESS d then AddressZero
                    else tokenOutAddressInput s);
                 tokenInAddress =
                   (if isStEthAddress d (tokenInAddressInput s) then config_wstETH d
                    else tokenInAddress0);
                 tokenOutAddress =
                   (if isStEthAddress d (tokenOutAddressInput s) then config_wstETH d
                    else tokenOutAddress0);
                 tokenInPosition = indexOf (tokenAddresses res) (toLowerCase tokenInAddress);
                 tokenOutPosition = indexOf (tokenAddresses res) (toLowerCase tokenOutAddress)
             in case at_index deltas tokenInPosition of
                  None \<Rightarrow> Throw InvalidBigNumber s
                | Some deltaIn \<Rightarrow>
                    (case at_index deltas tokenOutPosition of
                       None \<Rightarrow> Throw InvalidBigNumber s
                     | Some deltaOut \<Rightarrow>
                         (let tokenInAmount = \<bar>deltaIn\<bar>;
                              tokenOutAmount = \<bar>deltaOut\<bar>;
                              s1 = (if swapType = SwapExactOut
                                    then s\<lparr>tokenInAmountInput :=
                                             (if tokenInAmount > 0
                                              then formatAmount d
                                                     (formatUnits tokenInAmount tokenInDecimals)
                                              else [])\<rparr>
                                    else s);
                              s2 = (if swapType = SwapExactIn
                                    then s1\<lparr>tokenOutAmountInput :=
                                              (if tokenOutAmount > 0
                                               then formatAmount d
                                                      (formatUnits tokenOutAmount
                                                         tokenOutDecimals)
                                               else [])\<rparr>
                                    else s1)
                          in Return s2)))
          else Return s)"

subsection \<open>\<open>txHandler\<close> and \<open>trade\<close>\<close>

definition trackSwapEvent :: "deps \<Rightarrow> sor_state \<Rightarrow> sor_state" where
  "trackSwapEvent d s =
     (let s1 = record_call (CallTrackGoal ''BalancerSwap'') s in
      if isMainnet d then record_call (CallTrackGoal ''BalancerSwapMainnet'') s1 else s1)"

definition txHandler ::
  "deps \<Rightarrow> TransactionResponse \<Rightarrow> TransactionAction \<Rightarrow> sor_state \<Rightarrow>
     error option \<times> sor_state" where
  \<comment> \<open>gives the error thrown, if any, and the state left; the summary text and the fiat
      value are computed by collaborators from the same references and are left out of
      the logged calls\<close>
  "txHandler d tx action s =
     (let s1 = s\<lparr>confirming := False\<rparr> in
      case getQuote d s1 of
        Inl e \<Rightarrow> (Some e, s1)
      | Inr quote \<Rightarrow>
          (None, record_call (CallTxListener (hash tx))
                   (record_call (CallAddTransaction (hash tx) action quote) s1)))"

definition onTxConfirmed :: "TransactionResponse \<Rightarrow> sor_state \<Rightarrow> sor_state" where
  "onTxConfirmed tx s =
     (record_call (CallTrackGoal ''Swapped'') s)\<lparr>trading := False, latestTxHash := hash tx\<rparr>"

definition onTxFailed :: "sor_state \<Rightarrow> sor_state" where
  "onTxFailed s = s\<lparr>trading := False\<rparr>"

definition trade_catch :: "error \<Rightarrow> sor_state \<Rightarrow> sor_state" where
  \<comment> \<open>the \<open>catch (e)\<close> block, the same in the four branches of \<open>trade\<close>\<close>
  "trade_catch e s =
     (record_call (CallCaptureException e) s)
       \<lparr>submissionError := Some (message e), trading := False, confirming := False\<rparr>"

definition trade_start :: "deps \<Rightarrow> (error + unit) option \<Rightarrow> sor_state \<Rightarrow> step" where
  \<comment> \<open>\<open>successCallback\<close> is \<open>None\<close> when not given, else the outcome of calling it\<close>
  "trade_start d successCallback s =
     (let s1 = (record_call (CallTrackGoal ''ClickSwap'') s)
                 \<lparr>trading := True, confirming := True, submissionError := None\<rparr>;
          tokenInAddress = tokenInAddressInput s1;
          tokenOutAddress = tokenOutAddressInput s1
      in case getToken d tokenInAddress of
           None \<Rightarrow> Throw TypeError s1
         | Some tin \<Rightarrow>
             (case getToken d tokenOutAddress of
                None \<Rightarrow> Throw TypeError s1
              | Some tout \<Rightarrow>
                  (let tokenInDecimals = decimals tin;
                       tokenOutDecimals = decimals tout
                   in case parseFixed (tokenInAmountInput s1) (Some tokenInDecimals) of
                        Inl e \<Rightarrow> Throw e s1
                      | Inr inScaled \<Rightarrow>
                          if wrapType s1 = Wrap then
                            Await (AwaitWrap successCallback tokenOutAddress inScaled)
                              (record_call (CallWrap tokenOutAddress inScaled) s1)
                          else if wrapType s1 = Unwrap then
                            Await (AwaitUnwrap successCallback tokenInAddress inScaled)
                              (record_call (CallUnwrap tokenInAddress inScaled) s1)
                          else if exactIn s1 then
                            (case parseFixed (tokenOutAmountInput s1) (Some tokenOutDecimals) of
                               Inl e \<Rightarrow> Throw e s1
                             | Inr tokenOutAmount \<Rightarrow>
                                 (case getMinOut d s1 tokenOutAmount of
                                    Inl e \<Rightarrow> Throw e s1
                                  | Inr minAmount \<Rightarrow>
                                      (let sr = sorReturn s1 in
                                       Await (AwaitSwapIn successCallback sr
                                                inScaled minAmount)
                                         (record_call (CallSwapIn sr inScaled minAmount)
                                            s1))))
                          else
                            (case getMaxIn d s1 inScaled of
                               Inl e \<Rightarrow> Throw e s1
                             | Inr tokenInAmountMax \<Rightarrow>
                                 (let sr = sorReturn s1 in
                                  case parseFixed (tokenOutAmountInput s1)
                                         (Some tokenOutDecimals) of
                                    Inl e \<Rightarrow> Throw e s1
                                  | Inr outScaled \<Rightarrow>
                                      Await (AwaitSwapOut successCallback sr
                                               tokenInAmountMax outScaled)
                                        (record_call (CallSwapOut sr tokenInAmountMax
                                                outScaled) s1))))))"

definition trade_after_submit ::
  "deps \<Rightarrow> TransactionAction \<Rightarrow> (error + unit) option \<Rightarrow> error + TransactionResponse
     \<Rightarrow> sor_state \<Rightarrow> step" where
  \<comment> \<open>the rest of a \<open>try\<close> block once the submission has answered, and its \<open>catch\<close>\<close>
  "trade_after_submit d action successCallback answer s =
     (case answer of
        Inl e \<Rightarrow> Return (trade_catch e s)
      | Inr tx \<Rightarrow>
          (case txHandler d tx action s of
             (Some e, s1) \<Rightarrow> Return (trade_catch e s1)
           | (None, s1) \<Rightarrow>
               (case successCallback of
                  None \<Rightarrow> Return (trackSwapEvent d s1)
                | Some outcome \<Rightarrow>
                    (let s2 = record_call CallSuccessCallback s1 in
                     case outcome of
                       Inl e \<Rightarrow> Return (trade_catch e s2)
                     | Inr _ \<Rightarrow> Return (trackSwapEvent d s2)))))"

subsection \<open>Answers, and running a function to its end\<close>

text \<open>
  An answer to a pending request is the outcome of the collaborator's promise. \<open>deliver\<close>
  runs the segment that waits for it; \<open>ask\<close> is the answer the collaborators of a
  \<open>world\<close> give. An answer of the wrong kind cannot come from \<open>ask\<close>.
\<close>

datatype answer =
    AInt "error + int"
  | AUnit "error + unit"
  | ASor "error + SorReturn"
  | AInts "error + int list"
  | ATx "error + TransactionResponse"

fun deliver :: "deps \<Rightarrow> pending \<Rightarrow> answer \<Rightarrow> sor_state \<Rightarrow> step" where
  "deliver d (AwaitGetWrapOutput isExactIn dec wrapper kind a) (AInt r) s =
     hac_after_getWrapOutput isExactIn dec r s"
| "deliver d (AwaitSetSwapCost l tok dec price) (AUnit r) s = hac_after_setSwapCost l r s"
| "deliver d (AwaitGetBestSwap l scaled) (ASor r) s = hac_after_getBestSwap d l scaled r s"
| "deliver d (AwaitAdjustedPiAmount l scaled swapReturn a converting) (AInt r) s =
     hac_after_adjustedPiAmount l scaled swapReturn a converting r s"
| "deliver d (AwaitQueryBatchSwap res swapType) (AInts r) s =
     uta_after_queryBatchSwap d res swapType r s"
| "deliver d (AwaitWrap cb a n) (ATx r) s = trade_after_submit d ActWrap cb r s"
| "deliver d (AwaitUnwrap cb a n) (ATx r) s = trade_after_submit d ActUnwrap cb r s"
| "deliver d (AwaitSwapIn cb sr a m) (ATx r) s = trade_after_submit d ActTrade cb r s"
| "deliver d (AwaitSwapOut cb sr a m) (ATx r) s = trade_after_submit d ActTrade cb r s"
| "deliver d k a s = Throw TypeError s"

fun ask :: "world \<Rightarrow> pending \<Rightarrow> answer" where
  "ask w (AwaitGetWrapOutput isExactIn dec wrapper kind a) = AInt (getWrapOutput w wrapper kind a)"
| "ask w (AwaitSetSwapCost l tok dec price) = AUnit (setCostOutputToken w tok dec price)"
| "ask w (AwaitGetBestSwap l scaled) =
     ASor (getBestSwap w (l_tokenInAddress l) (l_tokenOutAddress l)
             (l_tokenInDecimals l) (l_tokenOutDecimals l)
             (if l_exactIn l then SwapExactIn else SwapExactOut) scaled)"
| "ask w (AwaitAdjustedPiAmount l scaled swapReturn a converting) =
     AInt (convertStEthWrap w a True)"
| "ask w (AwaitQueryBatchSwap res swapType) =
     AInts (queryBatchSwap w swapType (swaps res) (tokenAddresses res))"
| "ask w (AwaitWrap cb a n) = ATx (wrap w a n)"
| "ask w (AwaitUnwrap cb a n) = ATx (unwrap w a n)"
| "ask w (AwaitSwapIn cb sr a m) = ATx (swapIn w sr a m)"
| "ask w (AwaitSwapOut cb sr a m) = ATx (swapOut w sr a m)"

text \<open>
  When nothing else runs in between, each request is answered by the collaborator and
  the next segment runs on the state the previous one left.
\<close>

fun run :: "nat \<Rightarrow> deps \<Rightarrow> world \<Rightarrow> step \<Rightarrow> step" where
  "run (Suc n) d w (Await k s) = run n d w (deliver d k (ask w k) s)"
| "run n d w st = st"

definition handleAmountChange :: "deps \<Rightarrow> world \<Rightarrow> sor_state \<Rightarrow> step" where
  \<comment> \<open>at most three \<open>await\<close>s: \<open>setSwapCost\<close>, \<open>getBestSwap\<close>, \<open>adjustedPiAmount\<close>\<close>
  "handleAmountChange d w s = run 3 d w (hac_start d s)"

definition updateTradeAmounts :: "deps \<Rightarrow> world \<Rightarrow> sor_state \<Rightarrow> step" where
  "updateTradeAmounts d w s = run 1 d w (uta_start s)"

definition trade :: "deps \<Rightarrow> world \<Rightarrow> (error + unit) option \<Rightarrow> sor_state \<Rightarrow> step" where
  "trade d w successCallback s = run 1 d w (trade_start d successCallback s)"

subsection \<open>Interleaved runs\<close>

text \<open>
  The composable runs on one thread: between two segments anything else may happen. A
  configuration is the state and the suspended calls, numbered in the order they were
  made; an event starts a call, edits an amount input, or delivers an answer to a
  suspended call.
\<close>

datatype event =
    Call_handleAmountChange
  | Call_updateTradeAmounts
  | Call_trade "(error + unit) option"
  | Edit_tokenInAmount string
  | Edit_tokenOutAmount string
  | Answer nat answer

definition started :: "step \<Rightarrow> pending option list \<Rightarrow> sor_state \<times> pending option list" where
  "started st ps =
     (case st of
        Return s \<Rightarrow> (s, ps @ [None])
      | Throw e s \<Rightarrow> (s, ps @ [None])
      | Await k s \<Rightarrow> (s, ps @ [Some k]))"

definition continued ::
  "nat \<Rightarrow> step \<Rightarrow> pending option list \<Rightarrow> sor_state \<times> pending option list" where
  "continued i st ps =
     (case st of
        Return s \<Rightarrow> (s, ps[i := None])
      | Throw e s \<Rightarrow> (s, ps[i := None])
      | Await k s \<Rightarrow> (s, ps[i := Some k]))"

fun occur ::
  "deps \<Rightarrow> sor_state \<times> pending option list \<Rightarrow> event \<Rightarrow> sor_state \<times> pending option list" where
  "occur d (s, ps) Call_handleAmountChange = started (hac_start d s) ps"
| "occur d (s, ps) Call_updateTradeAmounts = started (uta_start s) ps"
| "occur d (s, ps) (Call_trade cb) = started (trade_start d cb s) ps"
| "occur d (s, ps) (Edit_tokenInAmount v) = (s\<lparr>tokenInAmountInput := v\<rparr>, ps)"
| "occur d (s, ps) (Edit_tokenOutAmount v) = (s\<lparr>tokenOutAmountInput := v\<rparr>, ps)"
| "occur d (s, ps) (Answer i a) =
     (if i < length ps then
        (case ps ! i of
           None \<Rightarrow> (s, ps)
         | Some k \<Rightarrow> continued i (deliver d k a s) ps)
      else (s, ps))"

definition interleave ::
  "deps \<Rightarrow> sor_state \<Rightarrow> event list \<Rightarrow> sor_state \<times> pending option list" where
  "interleave d s es = foldl (occur d) (s, []) es"

section \<open>The initial state, and predicates of the statements\<close>

definition init_sorReturn :: SorReturn where
  "init_sorReturn =
     \<lparr>hasSwaps = False, tokenIn = [], tokenOut = [], returnDecimals = 18, returnAmount = 0,
      marketSpNormalised = Some 0,
      result = \<lparr>oid = 0, tokenAddresses = [], swaps = []\<rparr>\<rparr>"

definition useSor ::
  "bool \<Rightarrow> string \<Rightarrow> string \<Rightarrow> string \<Rightarrow> string \<Rightarrow> WrapType \<Rightarrow> int option \<Rightarrow> int option
     \<Rightarrow> TokenInfo \<Rightarrow> TokenInfo \<Rightarrow> real \<Rightarrow> sor_state" where
  \<comment> \<open>the references as \<open>useSor\<close> creates them from its props\<close>
  "useSor isExactIn inAddress inAmount outAddress outAmount wt inScaled outScaled tin tout rate =
     \<lparr>exactIn = isExactIn,
      tokenInAddressInput = inAddress,
      tokenInAmountInput = inAmount,
      tokenOutAddressInput = outAddress,
      tokenOutAmountInput = outAmount,
      wrapType = wt,
      tokenInAmountScaled = inScaled,
      tokenOutAmountScaled = outScaled,
      tokenInInfo = tin,
      tokenOutInfo = tout,
      slippageBufferRate = rate,
      sorManager = None,
      pools = [],
      sorReturn = init_sorReturn,
      trading = False,
      confirming = False,
      priceImpact = 0,
      latestTxHash = [],
      poolsLoading = True,
      highPriceImpact = False,
      submissionError = None,
      calls = []\<rparr>"

definition poolsFetched :: "string list \<Rightarrow> sor_state \<Rightarrow> sor_state" where
  \<comment> \<open>the state once \<open>initSor\<close> has created the manager and its \<open>fetchPools\<close> has resolved\<close>
  "poolsFetched ps s =
     s\<lparr>sorManager := Some \<lparr>hasPoolData = True, selectedPools = ps\<rparr>, poolsLoading := False\<rparr>"

definition edited_amount :: "sor_state \<Rightarrow> string" where
  \<comment> \<open>\<open>exactIn.value ? tokenInAmountInput.value : tokenOutAmountInput.value\<close>\<close>
  "edited_amount s = (if exactIn s then tokenInAmountInput s else tokenOutAmountInput s)"

definition reaches_routing :: "sor_state \<Rightarrow> bool" where
  \<comment> \<open>none of the early returns of \<open>handleAmountChange\<close> is taken\<close>
  "reaches_routing s =
     (edited_amount s \<noteq> [] \<and> edited_amount s \<noteq> ''0''
      \<and> tokenInAddressInput s \<noteq> [] \<and> tokenOutAddressInput s \<noteq> []
      \<and> wrapType s = NonWrap
      \<and> (case sorManager s of None \<Rightarrow> False | Some m \<Rightarrow> hasPoolData m))"

definition state_of :: "step \<Rightarrow> sor_state" where
  "state_of st = (case st of Return s \<Rightarrow> s | Throw e s \<Rightarrow> s | Await k s \<Rightarrow> s)"

definition routing_calls :: "sor_state \<Rightarrow> call list" where
  \<comment> \<open>the logged calls to the routing engine: \<open>setCostOutputToken\<close> and \<open>getBestSwap\<close>\<close>
  "routing_calls s =
     filter (\<lambda>c. case c of CallGetBestSwap a b di do t n \<Rightarrow> True
                 | CallSetCostOutputToken a dec price \<Rightarrow> True
                 | _ \<Rightarrow> False) (calls s)"

definition submissions :: "sor_state \<Rightarrow> call list" where
  \<comment> \<open>the logged calls of \<open>wrap\<close>, \<open>unwrap\<close>, \<open>swapIn\<close> and \<open>swapOut\<close>\<close>
  "submissions s =
     filter (\<lambda>c. case c of CallWrap a n \<Rightarrow> True | CallUnwrap a n \<Rightarrow> True
                 | CallSwapIn sr a m \<Rightarrow> True | CallSwapOut sr a m \<Rightarrow> True | _ \<Rightarrow> False)
       (calls s)"

section \<open>Example collaborators\<close>

text \<open>
  Three tokens with 18, 6 and 18 decimals, a wrap adapter that converts one to one, a
  routing engine that answers every query with the route it is given, and executors
  that accept every submission. \<open>fNum2\<close> leaves its argument as it is. Numbers add
  exactly and print as the decimal they are: the whole part alone when there is no
  fraction, else with the digits of the fraction, of which there are at most 18.
\<close>

definition ex_deps :: deps where
  "ex_deps =
     \<lparr>getToken = (\<lambda>a. if a = ''0xdai'' then Some \<lparr>decimals = 18, symbol = ''DAI''\<rparr>
                      else if a = ''0xusdc'' then Some \<lparr>decimals = 6, symbol = ''USDC''\<rparr>
                      else if a = ''0xweth'' then Some \<lparr>decimals = 18, symbol = ''WETH''\<rparr>
                      else if a = ''0xeth'' then Some \<lparr>decimals = 18, symbol = ''ETH''\<rparr>
                      else None),
      priceFor = (\<lambda>a. 2),
      nativeAssetAddress = ''0xeth'',
      NATIVE_ASSET_ADDRESS = ''0xeth'',
      config_wstETH = ''0xwsteth'',
      app_wstETH = ''0xwsteth'',
      isStEthAddress = (\<lambda>a. a = ''0xsteth''),
      isSameAddress = (\<lambda>a b. toLowerCase a = toLowerCase b),
      isMainnet = True,
      fNum2 = (\<lambda>a. a),
      number_plus = (\<lambda>a b. a + b),
      number_String = (\<lambda>x. let v = \<lfloor>x * 10 ^ 18\<rfloor> in
                              if v mod 10 ^ 18 = 0 then formatFixed (v div 10 ^ 18) None
                              else formatFixed v (Some 18))\<rparr>"

definition ex_route :: "nat \<Rightarrow> string \<Rightarrow> string \<Rightarrow> int \<Rightarrow> SorReturn" where
  \<comment> \<open>a one-hop route at market price 1: object identity, the two tokens, the return amount\<close>
  "ex_route i a b r =
     \<lparr>hasSwaps = True, tokenIn = a, tokenOut = b, returnDecimals = 18, returnAmount = r,
      marketSpNormalised = Some 1,
      result = \<lparr>oid = i, tokenAddresses = [a, b],
                swaps = [\<lparr>poolId = ''0xpool'', assetInIndex = 0, assetOutIndex = 1,
                          amount = ''0''\<rparr>]\<rparr>\<rparr>"

definition ex_no_route :: "nat \<Rightarrow> SorReturn" where
  "ex_no_route i = init_sorReturn\<lparr>result := \<lparr>oid = i, tokenAddresses = [], swaps = []\<rparr>\<rparr>"

definition ex_world :: "SorReturn \<Rightarrow> world" where
  "ex_world sr =
     \<lparr>getWrapOutput = (\<lambda>wrapper kind a. Inr a),
      setCostOutputToken = (\<lambda>tok dec price. Inr ()),
      getBestSwap = (\<lambda>a b da db t n. Inr sr),
      convertStEthWrap = (\<lambda>a isWrap. Inr a),
      queryBatchSwap = (\<lambda>t sw assets. Inr [0, 0]),
      wrap = (\<lambda>a n. Inr \<lparr>hash = ''0xtx''\<rparr>),
      unwrap = (\<lambda>a n. Inr \<lparr>hash = ''0xtx''\<rparr>),
      swapIn = (\<lambda>r a m. Inr \<lparr>hash = ''0xtx''\<rparr>),
      swapOut = (\<lambda>r a m. Inr \<lparr>hash = ''0xtx''\<rparr>)\<rparr>"

definition ex_swap :: "bool \<Rightarrow> string \<Rightarrow> string \<Rightarrow> sor_state" where
  \<comment> \<open>DAI for USDC with pools fetched: the direction and the two amount inputs\<close>
  "ex_swap isExactIn inAmount outAmount =
     poolsFetched [''0xpool'']
       (useSor isExactIn ''0xdai'' inAmount ''0xusdc'' outAmount NonWrap None None
          \<lparr>decimals = 18, symbol = ''DAI''\<rparr> \<lparr>decimals = 6, symbol = ''USDC''\<rparr> (1 / 100))"

definition ex_wrap :: "bool \<Rightarrow> string \<Rightarrow> string \<Rightarrow> sor_state" where
  \<comment> \<open>ETH wrapped to WETH\<close>
  "ex_wrap isExactIn inAmount outAmount =
     poolsFetched [''0xpool'']
       (useSor isExactIn ''0xeth'' inAmount ''0xweth'' outAmount Wrap None None
          \<lparr>decimals = 18, symbol = ''ETH''\<rparr> \<lparr>decimals = 18, symbol = ''WETH''\<rparr> (1 / 100))"

definition ex_dai_weth :: "string \<Rightarrow> sor_state" where
  \<comment> \<open>DAI for WETH, exact in, with pools fetched\<close>
  "ex_dai_weth inAmount =
     poolsFetched [''0xpool'']
       (useSor True ''0xdai'' inAmount ''0xweth'' [] NonWrap None None
          \<lparr>decimals = 18, symbol = ''DAI''\<rparr> \<lparr>decimals = 18, symbol = ''WETH''\<rparr> (1 / 100))"

definition ex_race_events :: "event list" where
  \<comment> \<open>quote A for the amount 1 starts and its swap cost is set; the amount is edited to 2
      and quote B starts; B's three requests are answered; then A's routing query and
      its last request are answered\<close>
  "ex_race_events =
     [Call_handleAmountChange,
      Answer 0 (AUnit (Inr ())),
      Edit_tokenInAmount ''2'',
      Call_handleAmountChange,
      Answer 1 (AUnit (Inr ())),
      Answer 1 (ASor (Inr (ex_route 12 ''0xdai'' ''0xusdc'' 1980000))),
      Answer 1 (AInt (Inr 1980000)),
      Answer 0 (ASor (Inr (ex_route 11 ''0xdai'' ''0xusdc'' 990000))),
      Answer 0 (AInt (Inr 990000))]"

definition ex_high_quote :: step where
  \<comment> \<open>a quote of 105 units of DAI for 100 of WETH at market price 1: impact \<open>0.05\<close>\<close>
  "ex_high_quote =
     handleAmountChange ex_deps (ex_world (ex_route 11 ''0xdai'' ''0xweth'' 100))
       (ex_dai_weth ''0.000000000000000105'')"

definition ex_then_cleared :: step where
  \<comment> \<open>after that quote the amount input is cleared and \<open>handleAmountChange\<close> runs again\<close>
  "ex_then_cleared =
     handleAmountChange ex_deps (ex_world (ex_route 11 ''0xdai'' ''0xweth'' 100))
       ((state_of ex_high_quote)\<lparr>tokenInAmountInput := []\<rparr>)"

section \<open>Facts about the segments\<close>

lemma bn_div_nonneg: "0 \<le> a \<Longrightarrow> 0 < b \<Longrightarrow> bn_div a b = Inr (a div b)"
  by (cases "a = 0") (simp_all add: bn_div_def)

lemma hac_finish_cases:
  "hac_finish s = (case sorManager s of None \<Rightarrow> Throw TypeError s
     | Some m \<Rightarrow> Return (s\<lparr>pools := selectedPools m,
          highPriceImpact := (HIGH_PRICE_IMPACT_THRESHOLD \<le> priceImpact s)\<rparr>))"
  by (simp add: hac_finish_def Let_def split: option.splits)

lemma hac_start_routed:
  assumes "reaches_routing s"
  shows "hac_start d s =
     (let tok = (if exactIn s then tokenOutAddressInput s else tokenInAddressInput s);
          dec = getTokenDecimals d tok;
          price = calculateEthPriceInToken d tok
      in Await (AwaitSetSwapCost
           \<lparr>l_exactIn = exactIn s, l_amount = edited_amount s,
            l_tokenInAddress = tokenInAddressInput s,
            l_tokenOutAddress = tokenOutAddressInput s,
            l_tokenInDecimals = getTokenDecimals d (tokenInAddressInput s),
            l_tokenOutDecimals = getTokenDecimals d (tokenOutAddressInput s)\<rparr> tok dec price)
        (record_call (CallSetCostOutputToken tok dec price) s))"
  using assms
  by (auto simp: hac_start_def reaches_routing_def edited_amount_def Let_def split: option.splits)

lemma hac_start_not_routed:
  assumes "\<not> reaches_routing s"
  shows "(\<exists>s'. hac_start d s = Return s' \<and> highPriceImpact s' = highPriceImpact s)
    \<or> (\<exists>e s'. hac_start d s = Throw e s')
    \<or> (\<exists>b dec wr k a s'. hac_start d s = Await (AwaitGetWrapOutput b dec wr k a) s'
          \<and> highPriceImpact s' = highPriceImpact s)"
  using assms
  by (auto simp: hac_start_def reaches_routing_def edited_amount_def Let_def resetInputAmounts_def
        clearDerived_def record_call_def split: option.splits if_splits sum.splits)

lemma wrap_output_flag:
  "hac_after_getWrapOutput b dec r s = Return s' \<Longrightarrow> highPriceImpact s' = highPriceImpact s"
  by (auto simp: hac_after_getWrapOutput_def Let_def split: sum.splits if_splits)

lemma run_simps3: "run 3 d w (Await k s) = run 2 d w (deliver d k (ask w k) s)"
  "run 2 d w (Await k s) = run 1 d w (deliver d k (ask w k) s)"
  "run 1 d w (Await k s) = run 0 d w (deliver d k (ask w k) s)"
  by (simp_all add: eval_nat_numeral)

lemma run_done [simp]: "run n d w (Return s) = Return s" "run n d w (Throw e s) = Throw e s"
  by (cases n; simp)+

lemma run_0 [simp]: "run 0 d w st = st"
  by simp

lemma after_cost:
  "hac_after_setSwapCost l r s =
     (case r of Inl e \<Rightarrow> Throw e s
      | Inr u \<Rightarrow> (case parseUnits (l_amount l)
                  (if l_exactIn l then l_tokenInDecimals l else l_tokenOutDecimals l) of
          Inl e \<Rightarrow> Throw e s
        | Inr scaled \<Rightarrow> (case sorManager s of None \<Rightarrow> Throw TypeError s
            | Some m \<Rightarrow> Await (AwaitGetBestSwap l scaled)
                (record_call (CallGetBestSwap (l_tokenInAddress l) (l_tokenOutAddress l)
                              (l_tokenInDecimals l) (l_tokenOutDecimals l)
                              (if l_exactIn l then SwapExactIn else SwapExactOut) scaled) s))))"
  by (simp add: hac_after_setSwapCost_def)

lemma store_route_fields [simp]:
  "sorReturn (store_route d l sr s) = sr"
  "sorManager (store_route d l sr s) = sorManager s"
  "calls (store_route d l sr s) = calls s"
  "highPriceImpact (store_route d l sr s) = highPriceImpact s"
  "exactIn (store_route d l sr s) = exactIn s"
  by (simp_all add: store_route_def Let_def)

lemma record_call_fields [simp]:
  "sorReturn (record_call c s) = sorReturn s"
  "sorManager (record_call c s) = sorManager s"
  "calls (record_call c s) = calls s @ [c]"
  "highPriceImpact (record_call c s) = highPriceImpact s"
  "priceImpact (record_call c s) = priceImpact s"
  "exactIn (record_call c s) = exactIn s"
  "trading (record_call c s) = trading s"
  "confirming (record_call c s) = confirming s"
  "submissionError (record_call c s) = submissionError s"
  by (simp_all add: record_call_def)

lemma after_best:
  "hac_after_getBestSwap d l scaled r s =
     (case r of Inl e \<Rightarrow> Throw e s
      | Inr sr \<Rightarrow>
     (if \<not> hasSwaps sr then hac_finish ((store_route d l sr s)\<lparr>priceImpact := 0\<rparr>)
      else if adjustedPiAmount_converts d (l_tokenOutAddress l)
      then Await (AwaitAdjustedPiAmount l scaled sr (returnAmount sr) True)
             (record_call (CallConvertStEthWrap (returnAmount sr) True) (store_route d l sr s))
      else Await (AwaitAdjustedPiAmount l scaled sr (returnAmount sr) False) (store_route d l sr s)))"
  by (simp add: hac_after_getBestSwap_def Let_def split: sum.splits)

lemma after_adjusted:
  "hac_after_adjustedPiAmount l scaled sr a conv r s =
     (case (if conv then r else Inr a) of
        Inl e \<Rightarrow> Throw e s
      | Inr adjusted \<Rightarrow>
          (case calcPriceImpact
                  (if l_exactIn l then l_tokenOutDecimals l else l_tokenInDecimals l)
                  adjusted scaled sr of
             Inl e \<Rightarrow> Throw e s
           | Inr c \<Rightarrow>
               hac_finish (s\<lparr>priceImpact := max (Number_formatUnits c) MIN_PRICE_IMPACT\<rparr>)))"
  by (simp add: hac_after_adjustedPiAmount_def)

lemma routed_Return:
  assumes "reaches_routing s" and "handleAmountChange d w s = Return s'"
  shows "\<exists>scaled sr.
           parseUnits (edited_amount s)
             (getTokenDecimals d (if exactIn s then tokenInAddressInput s
                                  else tokenOutAddressInput s)) = Inr scaled
         \<and> getBestSwap w (tokenInAddressInput s) (tokenOutAddressInput s)
              (getTokenDecimals d (tokenInAddressInput s))
              (getTokenDecimals d (tokenOutAddressInput s))
              (if exactIn s then SwapExactIn else SwapExactOut) scaled = Inr sr
         \<and> sorReturn s' = sr
         \<and> highPriceImpact s' = (HIGH_PRICE_IMPACT_THRESHOLD \<le> priceImpact s')
         \<and> (if hasSwaps sr
            then \<exists>adjusted c.
                   (if adjustedPiAmount_converts d (tokenOutAddressInput s)
                    then convertStEthWrap w (returnAmount sr) True
                    else Inr (returnAmount sr)) = Inr adjusted
                 \<and> calcPriceImpact
                     (getTokenDecimals d (if exactIn s then tokenOutAddressInput s
                                          else tokenInAddressInput s))
                     adjusted scaled sr = Inr c
                 \<and> priceImpact s' = max (Number_formatUnits c) MIN_PRICE_IMPACT
            else priceImpact s' = 0)"
  using assms(2) unfolding handleAmountChange_def hac_start_routed[OF assms(1)] Let_def
  by (auto simp: run_simps3 after_cost after_best after_adjusted hac_finish_cases
       split: sum.splits option.splits if_splits)


lemma string_of_nat_digit: "n < 10 \<Longrightarrow> string_of_nat n = [''0123456789'' ! n]"
  by (simp add: string_of_nat.simps)

lemma string_of_nat_step:
  "10 \<le> n \<Longrightarrow> string_of_nat n = string_of_nat (n div 10) @ [''0123456789'' ! (n mod 10)]"
  by (subst string_of_nat.simps) simp

lemmas format_defs = formatUnits_def formatFixed_def string_of_nat_digit string_of_nat_step

lemmas parse_defs =
  parseFixed_def parseUnits_def split_dot_def is_digit_def nat_of_digits_def digit_of_def

lemmas ex_defs =
  ex_deps_def ex_route_def ex_no_route_def ex_world_def ex_swap_def ex_wrap_def ex_dai_weth_def
  useSor_def poolsFetched_def init_sorReturn_def

lemma handleAmountChange_routed:
  assumes "reaches_routing s"
  shows "handleAmountChange d w s =
     run 2 d w (hac_after_setSwapCost
        \<lparr>l_exactIn = exactIn s, l_amount = edited_amount s,
          l_tokenInAddress = tokenInAddressInput s,
          l_tokenOutAddress = tokenOutAddressInput s,
          l_tokenInDecimals = getTokenDecimals d (tokenInAddressInput s),
          l_tokenOutDecimals = getTokenDecimals d (tokenOutAddressInput s)\<rparr>
        (setCostOutputToken w (if exactIn s then tokenOutAddressInput s else tokenInAddressInput s)
           (getTokenDecimals d (if exactIn s then tokenOutAddressInput s else tokenInAddressInput s))
           (calculateEthPriceInToken d
              (if exactIn s then tokenOutAddressInput s else tokenInAddressInput s)))
        (record_call (CallSetCostOutputToken
                (if exactIn s then tokenOutAddressInput s else tokenInAddressInput s)
                (getTokenDecimals d
                   (if exactIn s then tokenOutAddressInput s else tokenInAddressInput s))
                (calculateEthPriceInToken d
                   (if exactIn s then tokenOutAddressInput s else tokenInAddressInput s))) s))"
  unfolding handleAmountChange_def hac_start_routed[OF assms] Let_def
  by (simp add: run_simps3)

lemma routed_manager: "reaches_routing s \<Longrightarrow> \<exists>m. sorManager s = Some m"
  by (auto simp: reaches_routing_def split: option.splits)

lemma run_after_wrap:
  "run n d w (hac_after_getWrapOutput b dec r s) = hac_after_getWrapOutput b dec r s"
  by (cases r) (simp_all add: hac_after_getWrapOutput_def Let_def)

lemma handleAmountChange_not_routed:
  assumes "\<not> reaches_routing s" and "handleAmountChange d w s = Return s'"
  shows "highPriceImpact s' = highPriceImpact s"
  using hac_start_not_routed[OF assms(1), of d] assms(2)
  by (auto simp: handleAmountChange_def run_simps3 run_after_wrap dest: wrap_output_flag)

lemma zero_run:
  assumes "edited_amount s = [] \<or> edited_amount s = ''0''"
  shows "handleAmountChange d w s = Return (resetInputAmounts (edited_amount s) s)"
  using assms by (auto simp: handleAmountChange_def hac_start_def edited_amount_def)

lemma ex_converts [simp]:
  "\<not> adjustedPiAmount_converts ex_deps ''0xusdc''"
  "\<not> adjustedPiAmount_converts ex_deps ''0xweth''"
  by (simp_all add: adjustedPiAmount_converts_def ex_deps_def toLowerCase_def)

lemma ex_decimals [simp]:
  "getTokenDecimals ex_deps ''0xdai'' = Some 18"
  "getTokenDecimals ex_deps ''0xusdc'' = Some 6"
  "getTokenDecimals ex_deps ''0xweth'' = Some 18"
  "getTokenDecimals ex_deps ''0xeth'' = Some 18"
  by (simp_all add: getTokenDecimals_def ex_deps_def)

lemma ex_price [simp]: "calculateEthPriceInToken ex_deps a = 1"
  by (simp add: calculateEthPriceInToken_def ex_deps_def)

lemma ex_format [simp]: "formatAmount ex_deps a = a"
  by (simp add: formatAmount_def ex_deps_def)

lemma ex_parse [simp]:
  "parseUnits ''1'' (Some 18) = Inr 1000000000000000000"
  "parseUnits ''2'' (Some 18) = Inr 2000000000000000000"
  "parseUnits ''0.000000000000000105'' (Some 18) = Inr 105"
  "parseUnits ''0.0000000000000001'' (Some 18) = Inr 100"
  "parseFixed ''1.5'' (Some 18) = Inr 1500000000000000000"
  by (simp_all add: parse_defs)

lemma ex_fmt [simp]:
  "formatUnits 990000 (Some 6) = ''0.99''"
  "formatUnits 1980000 (Some 6) = ''1.98''"
  "formatFixed 1500000000000000000 (Some 18) = ''1.5''"
  by (simp_all add: format_defs)

lemma ex_calc [simp]:
  "calcPriceImpact (Some 6) 990000 1000000000000000000
     (ex_route 11 ''0xdai'' ''0xusdc'' 990000) = Inr 10101010101010101"
  "calcPriceImpact (Some 6) 1980000 2000000000000000000
     (ex_route 12 ''0xdai'' ''0xusdc'' 1980000) = Inr 10101010101010101"
  "calcPriceImpact (Some 18) 100 105 (ex_route 11 ''0xdai'' ''0xweth'' 100)
     = Inr 50000000000000000"
  "calcPriceImpact (Some 18) 101 100 (ex_route 11 ''0xdai'' ''0xweth'' 101)
     = Inr (- 9900990099009901)"
  by (simp_all add: calcPriceImpact_def bn_pow10_def bn_div_def parseUnits_toFixed_def
        ex_route_def ONE_def)

lemma ex_route_fields [simp]:
  "hasSwaps (ex_route i a b r)" "returnAmount (ex_route i a b r) = r"
  "\<not> hasSwaps (ex_no_route i)"
  by (simp_all add: ex_route_def ex_no_route_def init_sorReturn_def)

lemma ex_world_fields [simp]:
  "getWrapOutput (ex_world sr) wr k n = Inr n"
  "setCostOutputToken (ex_world sr) tok dec price = Inr ()"
  "getBestSwap (ex_world sr) ta tb da db t m = Inr sr"
  "convertStEthWrap (ex_world sr) x isWrap = Inr x"
  by (simp_all add: ex_world_def)

lemma ex_swap_fields [simp]:
  "exactIn (ex_swap b x y) = b"
  "tokenInAmountInput (ex_swap b x y) = x"
  "tokenOutAmountInput (ex_swap b x y) = y"
  "tokenInAddressInput (ex_swap b x y) = ''0xdai''"
  "tokenOutAddressInput (ex_swap b x y) = ''0xusdc''"
  "wrapType (ex_swap b x y) = NonWrap"
  "sorManager (ex_swap b x y) = Some \<lparr>hasPoolData = True, selectedPools = [''0xpool'']\<rparr>"
  "calls (ex_swap b x y) = []"
  "highPriceImpact (ex_swap b x y) = False"
  by (simp_all add: ex_swap_def useSor_def poolsFetched_def)

lemma ex_dai_weth_fields [simp]:
  "exactIn (ex_dai_weth x) = True"
  "tokenInAmountInput (ex_dai_weth x) = x"
  "tokenInAddressInput (ex_dai_weth x) = ''0xdai''"
  "tokenOutAddressInput (ex_dai_weth x) = ''0xweth''"
  "wrapType (ex_dai_weth x) = NonWrap"
  "sorManager (ex_dai_weth x) = Some \<lparr>hasPoolData = True, selectedPools = [''0xpool'']\<rparr>"
  "calls (ex_dai_weth x) = []"
  "highPriceImpact (ex_dai_weth x) = False"
  by (simp_all add: ex_dai_weth_def useSor_def poolsFetched_def)

lemma ex_wrap_fields [simp]:
  "exactIn (ex_wrap b x y) = b"
  "tokenInAmountInput (ex_wrap b x y) = x"
  "tokenOutAmountInput (ex_wrap b x y) = y"
  "tokenInAddressInput (ex_wrap b x y) = ''0xeth''"
  "tokenOutAddressInput (ex_wrap b x y) = ''0xweth''"
  "wrapType (ex_wrap b x y) = Wrap"
  "calls (ex_wrap b x y) = []"
  "highPriceImpact (ex_wrap b x y) = False"
  by (simp_all add: ex_wrap_def useSor_def poolsFetched_def)

lemma state_of_simps [simp]:
  "state_of (Return s) = s" "state_of (Throw e s) = s" "state_of (Await k s) = s"
  by (simp_all add: state_of_def)

lemma routed_quote_returns:
  assumes "reaches_routing s"
    and "setCostOutputToken w
           (if exactIn s then tokenOutAddressInput s else tokenInAddressInput s)
           (getTokenDecimals d
              (if exactIn s then tokenOutAddressInput s else tokenInAddressInput s))
           (calculateEthPriceInToken d
              (if exactIn s then tokenOutAddressInput s else tokenInAddressInput s)) = Inr u"
    and "parseUnits (edited_amount s)
           (getTokenDecimals d
              (if exactIn s then tokenInAddressInput s else tokenOutAddressInput s)) = Inr scaled"
    and "getBestSwap w (tokenInAddressInput s) (tokenOutAddressInput s)
           (getTokenDecimals d (tokenInAddressInput s))
           (getTokenDecimals d (tokenOutAddressInput s))
           (if exactIn s then SwapExactIn else SwapExactOut) scaled = Inr sr"
    and "hasSwaps sr"
    and "(if adjustedPiAmount_converts d (tokenOutAddressInput s)
          then convertStEthWrap w (returnAmount sr) True
          else Inr (returnAmount sr)) = Inr adjusted"
    and "calcPriceImpact
           (getTokenDecimals d
              (if exactIn s then tokenOutAddressInput s else tokenInAddressInput s))
           adjusted scaled sr = Inr c"
  shows "\<exists>s'. handleAmountChange d w s = Return s'
              \<and> sorReturn s' = sr
              \<and> priceImpact s' = max (Number_formatUnits c) MIN_PRICE_IMPACT
              \<and> highPriceImpact s' = (HIGH_PRICE_IMPACT_THRESHOLD \<le> priceImpact s')
              \<and> exactIn s' = exactIn s"
proof -
  obtain m where m: "sorManager s = Some m"
    using routed_manager[OF assms(1)] by blast
  show ?thesis
    unfolding handleAmountChange_routed[OF assms(1)]
    using assms(2-7) m
    by (cases "exactIn s"; cases "adjustedPiAmount_converts d (tokenOutAddressInput s)")
       (simp_all add: after_cost after_best after_adjusted run_simps3 hac_finish_cases
          store_route_def Let_def)
qed

lemma ex_high_quote_run:
  "\<exists>s'. ex_high_quote = Return s' \<and> priceImpact s' = 5 / 100 \<and> highPriceImpact s' \<and> exactIn s'"
  unfolding ex_high_quote_def
  using routed_quote_returns[of "ex_dai_weth ''0.000000000000000105''"
          "ex_world (ex_route 11 ''0xdai'' ''0xweth'' 100)" ex_deps "()" 105
          "ex_route 11 ''0xdai'' ''0xweth'' 100" 100 50000000000000000]
  by (auto simp: reaches_routing_def edited_amount_def Number_formatUnits_def
        MIN_PRICE_IMPACT_def HIGH_PRICE_IMPACT_THRESHOLD_def)

lemma trade_start_Await:
  assumes "trade_start d cb s = Await k s1"
  shows "\<exists>c. s1 = record_call c ((record_call (CallTrackGoal ''ClickSwap'') s)
                  \<lparr>trading := True, confirming := True, submissionError := None\<rparr>)
           \<and> ((\<exists>a n. k = AwaitWrap cb a n \<and> c = CallWrap a n)
              \<or> (\<exists>a n. k = AwaitUnwrap cb a n \<and> c = CallUnwrap a n)
              \<or> (\<exists>sr a m. k = AwaitSwapIn cb sr a m \<and> c = CallSwapIn sr a m)
              \<or> (\<exists>sr a m. k = AwaitSwapOut cb sr a m \<and> c = CallSwapOut sr a m))"
  using assms
  by (auto simp: trade_start_def Let_def split: option.splits sum.splits if_splits)

lemma submissions_log:
  "submissions (record_call c s) =
     submissions s @ (case c of CallWrap a n \<Rightarrow> [c] | CallUnwrap a n \<Rightarrow> [c]
                      | CallSwapIn sr a m \<Rightarrow> [c] | CallSwapOut sr a m \<Rightarrow> [c] | _ \<Rightarrow> [])"
  by (cases c) (simp_all add: submissions_def record_call_def)

lemma submissions_update [simp]:
  "submissions (s\<lparr>trading := t\<rparr>) = submissions s"
  "submissions (s\<lparr>confirming := f\<rparr>) = submissions s"
  "submissions (s\<lparr>submissionError := x\<rparr>) = submissions s"
  by (simp_all add: submissions_def)

lemma ex_parse_fixed [simp]:
  "parseFixed ''1'' (Some 18) = Inr 1000000000000000000"
  "parseFixed ''0.99'' (Some 6) = Inr 990000"
  by (simp_all add: parse_defs)

lemma ex_getToken [simp]:
  "getToken ex_deps ''0xdai'' = Some \<lparr>decimals = 18, symbol = ''DAI''\<rparr>"
  "getToken ex_deps ''0xusdc'' = Some \<lparr>decimals = 6, symbol = ''USDC''\<rparr>"
  by (simp_all add: ex_deps_def)

lemma parse_one_point_01:
  "parseFixed ''1.01'' (Some 18) = Inr 1010000000000000000"
  by (simp add: parse_defs)

lemma ex_printed_factor:
  "number_String ex_deps (number_plus ex_deps 1 (1 / 100)) = ''1.01''"
  by (simp add: ex_deps_def Let_def format_defs)

lemma ex_swap_rate: "slippageBufferRate (ex_swap b x y) = 1 / 100"
  by (simp add: ex_swap_def useSor_def poolsFetched_def)

lemma ex_trade_start:
  "trade_start ex_deps None
     ((ex_swap True ''1'' ''0.99'')\<lparr>sorReturn := ex_route 11 ''0xdai'' ''0xusdc'' 990000\<rparr>) =
   Await (AwaitSwapIn None (ex_route 11 ''0xdai'' ''0xusdc'' 990000) 1000000000000000000 980198)
     (record_call (CallSwapIn (ex_route 11 ''0xdai'' ''0xusdc'' 990000) 1000000000000000000 980198)
        ((record_call (CallTrackGoal ''ClickSwap'')
            ((ex_swap True ''1'' ''0.99'')
               \<lparr>sorReturn := ex_route 11 ''0xdai'' ''0xusdc'' 990000\<rparr>))
           \<lparr>trading := True, confirming := True, submissionError := None\<rparr>))"
  by (simp add: trade_start_def Let_def record_call_def getMinOut_def ex_printed_factor
        parse_one_point_01 ONE_def bn_div_def ex_swap_def useSor_def poolsFetched_def)

text \<open>
  No run stops for want of steps: started on any state, each function ends in \<open>Return\<close>
  or \<open>Throw\<close>.
\<close>

lemma handleAmountChange_finishes: "handleAmountChange d w s \<noteq> Await k s'"
proof (cases "reaches_routing s")
  case True
  obtain m where m: "sorManager s = Some m"
    using routed_manager[OF True] by blast
  show ?thesis
    unfolding handleAmountChange_routed[OF True]
    using m
    by (auto simp: after_cost after_best after_adjusted run_simps3 hac_finish_cases
          split: sum.splits option.splits if_splits)
next
  case False
  from hac_start_not_routed[OF False, of d] show ?thesis
    by (auto simp: handleAmountChange_def run_simps3 run_after_wrap hac_after_getWrapOutput_def
          Let_def split: sum.splits)
qed

lemma uta_after_not_Await: "uta_after_queryBatchSwap d res t r s \<noteq> Await k s'"
  by (simp add: uta_after_queryBatchSwap_def Let_def split: sum.split option.split)

lemma updateTradeAmounts_finishes: "updateTradeAmounts d w s \<noteq> Await k s'"
  by (simp add: updateTradeAmounts_def uta_start_def run_simps3 uta_after_not_Await Let_def
        split: option.split)

lemma trade_finishes: "trade d w cb s \<noteq> Await k s'"
proof (cases "trade_start d cb s")
  case (Await k1 s1)
  from trade_start_Await[OF Await] show ?thesis
    unfolding trade_def Await
    by (auto simp: run_simps3 trade_after_submit_def Let_def split: sum.splits option.splits prod.splits)
qed (simp_all add: trade_def)

section \<open>Properties of the specification\<close>

text \<open>
  C1, as the code has it. \<open>updateTradeAmounts\<close> keeps the \<open>result\<close> object of the route it
  queries for. When the batch query answers after the route object has been replaced,
  in particular after a newer quote's routing answer has been stored, the two objects
  differ in identity and the answer is dropped: the function returns and the state is
  exactly as it was.
\<close>

theorem stale_batch_result_discarded:
  assumes "uta_start s = Await (AwaitQueryBatchSwap res kind) s1"
  shows "res = result (sorReturn s)
       \<and> (\<forall>s2 deltas. oid (result (sorReturn s2)) \<noteq> oid res \<longrightarrow>
             uta_after_queryBatchSwap d res kind (Inr deltas) s2 = Return s2)
       \<and> (\<forall>l scaled srB sB deltas. oid (result srB) \<noteq> oid res \<longrightarrow>
             uta_after_queryBatchSwap d res kind (Inr deltas)
               (state_of (hac_after_getBestSwap d l scaled (Inr srB) sB))
             = Return (state_of (hac_after_getBestSwap d l scaled (Inr srB) sB)))"
proof -
  have a: "res = result (sorReturn s)"
    using assms by (auto simp: uta_start_def Let_def split: option.splits if_splits)
  have b: "uta_after_queryBatchSwap d res kind (Inr deltas) s2 = Return s2"
    if "oid (result (sorReturn s2)) \<noteq> oid res" for s2 deltas
    using that by (simp add: uta_after_queryBatchSwap_def)
  have c: "sorReturn (state_of (hac_after_getBestSwap d l scaled (Inr srB) sB)) = srB"
    for l scaled srB sB
    by (simp add: after_best state_of_def hac_finish_cases split: option.splits)
  show ?thesis
    using a b c by simp
qed

theorem stale_batch_result_discarded_witness:
  "uta_start ((ex_swap True ''1'' ''0.99'')\<lparr>sorReturn := ex_route 11 ''0xdai'' ''0xusdc'' 990000\<rparr>)
     = Await (AwaitQueryBatchSwap (result (ex_route 11 ''0xdai'' ''0xusdc'' 990000)) SwapExactIn)
         (record_call (CallQueryBatchSwap SwapExactIn
                 (swaps (result (ex_route 11 ''0xdai'' ''0xusdc'' 990000)))
                 (tokenAddresses (result (ex_route 11 ''0xdai'' ''0xusdc'' 990000))))
            ((ex_swap True ''1'' ''0.99'')
               \<lparr>sorReturn := ex_route 11 ''0xdai'' ''0xusdc'' 990000\<rparr>))
   \<and> oid (result (ex_route 12 ''0xdai'' ''0xusdc'' 1980000))
       \<noteq> oid (result (ex_route 11 ''0xdai'' ''0xusdc'' 990000))
   \<and> uta_after_queryBatchSwap ex_deps (result (ex_route 11 ''0xdai'' ''0xusdc'' 990000))
         SwapExactIn (Inr [1000000000000000000, - 995000])
         ((ex_swap True ''2'' ''1.98'')\<lparr>sorReturn := ex_route 12 ''0xdai'' ''0xusdc'' 1980000\<rparr>)
       = Return ((ex_swap True ''2'' ''1.98'')
                   \<lparr>sorReturn := ex_route 12 ''0xdai'' ''0xusdc'' 1980000\<rparr>)"
proof -
  have h: "uta_start ((ex_swap True ''1'' ''0.99'')\<lparr>sorReturn := ex_route 11 ''0xdai'' ''0xusdc'' 990000\<rparr>)
     = Await (AwaitQueryBatchSwap (result (ex_route 11 ''0xdai'' ''0xusdc'' 990000)) SwapExactIn)
         (record_call (CallQueryBatchSwap SwapExactIn
                 (swaps (result (ex_route 11 ''0xdai'' ''0xusdc'' 990000)))
                 (tokenAddresses (result (ex_route 11 ''0xdai'' ''0xusdc'' 990000))))
            ((ex_swap True ''1'' ''0.99'')
               \<lparr>sorReturn := ex_route 11 ''0xdai'' ''0xusdc'' 990000\<rparr>))"
    by (simp add: uta_start_def Let_def ex_swap_def useSor_def poolsFetched_def)
  have n: "oid (result (ex_route 12 ''0xdai'' ''0xusdc'' 1980000))
       \<noteq> oid (result (ex_route 11 ''0xdai'' ''0xusdc'' 990000))"
    by (simp add: ex_route_def)
  from stale_batch_result_discarded[OF h, of ex_deps] h n show ?thesis
    by simp
qed

text \<open>
  C1 as stated also covers two quotes. \<open>handleAmountChange\<close> applies each routing answer
  when it arrives and compares nothing: quote A (amount 1) starts, the amount is edited
  to 2 and quote B starts, B's answers arrive and 1.98 is shown, then A's routing answer
  arrives and the older result, 0.99, replaces it.
\<close>

theorem stale_quote_overwrites:
  "tokenOutAmountInput (fst (interleave ex_deps (ex_swap True ''1'' []) (take 7 ex_race_events)))
     = ''1.98''
   \<and> snd (interleave ex_deps (ex_swap True ''1'' []) ex_race_events) = [None, None]
   \<and> tokenInAmountInput (fst (interleave ex_deps (ex_swap True ''1'' []) ex_race_events)) = ''2''
   \<and> tokenOutAmountInput (fst (interleave ex_deps (ex_swap True ''1'' []) ex_race_events))
       = ''0.99''
   \<and> sorReturn (fst (interleave ex_deps (ex_swap True ''1'' []) ex_race_events))
       = ex_route 11 ''0xdai'' ''0xusdc'' 990000"
  by (simp add: interleave_def ex_race_events_def started_def continued_def
        hac_start_routed reaches_routing_def edited_amount_def Let_def
        after_cost after_best after_adjusted hac_finish_cases store_route_def record_call_def)

text \<open>
  C2. For a wrap or unwrap pair with both tokens set and an edited amount other than
  \<open>""\<close> and \<open>"0"\<close>, \<open>handleAmountChange\<close> never calls the routing engine, whatever its
  outcome; and when the amount parses and the wrap adapter answers, it returns having
  called only \<open>getWrapOutput\<close>, with the paired amount formatted from the adapter's answer,
  \<open>hasSwaps\<close> false and the price impact 0.
\<close>

theorem wrap_bypasses_routing:
  assumes "wrapType s \<noteq> NonWrap"
    and "edited_amount s \<noteq> []" and "edited_amount s \<noteq> ''0''"
    and "tokenInAddressInput s \<noteq> []" and "tokenOutAddressInput s \<noteq> []"
  shows "routing_calls (state_of (handleAmountChange d w s)) = routing_calls s
       \<and> (\<forall>a out.
            parseFixed (edited_amount s)
              (getTokenDecimals d (if exactIn s then tokenInAddressInput s
                                   else tokenOutAddressInput s)) = Inr a
            \<and> getWrapOutput w
                (if wrapType s = Wrap then tokenOutAddressInput s else tokenInAddressInput s)
                (if exactIn s then wrapType s else if wrapType s = Wrap then Unwrap else Wrap)
                a = Inr out
            \<longrightarrow> (\<exists>s'. handleAmountChange d w s = Return s'
                  \<and> calls s' = calls s @
                      [CallGetWrapOutput
                         (if wrapType s = Wrap then tokenOutAddressInput s
                          else tokenInAddressInput s)
                         (if exactIn s then wrapType s
                          else if wrapType s = Wrap then Unwrap else Wrap) a]
                  \<and> (if exactIn s
                      then tokenInAmountInput s' = edited_amount s
                         \<and> tokenOutAmountInput s' =
                             formatFixed out (getTokenDecimals d (tokenInAddressInput s))
                      else tokenOutAmountInput s' = edited_amount s
                         \<and> tokenInAmountInput s' =
                             formatFixed out (getTokenDecimals d (tokenOutAddressInput s)))
                  \<and> \<not> hasSwaps (sorReturn s')
                  \<and> priceImpact s' = 0))"
  using assms
  by (auto simp: handleAmountChange_def hac_start_def edited_amount_def Let_def run_simps3
        hac_after_getWrapOutput_def routing_calls_def state_of_def record_call_def
        split: sum.splits)

theorem wrap_bypasses_routing_witness:
  "wrapType (ex_wrap True ''1.5'' []) = Wrap
   \<and> edited_amount (ex_wrap True ''1.5'' []) = ''1.5''
   \<and> routing_calls (state_of (handleAmountChange ex_deps (ex_world (ex_no_route 13))
                                 (ex_wrap True ''1.5'' []))) = []
   \<and> (\<exists>s'. handleAmountChange ex_deps (ex_world (ex_no_route 13)) (ex_wrap True ''1.5'' [])
              = Return s'
            \<and> calls s' = [CallGetWrapOutput ''0xweth'' Wrap 1500000000000000000]
            \<and> tokenInAmountInput s' = ''1.5''
            \<and> tokenOutAmountInput s' = ''1.5''
            \<and> \<not> hasSwaps (sorReturn s')
            \<and> priceImpact s' = 0)"
  using wrap_bypasses_routing[of "ex_wrap True ''1.5'' []" ex_deps "ex_world (ex_no_route 13)"]
  by (simp add: edited_amount_def routing_calls_def)

text \<open>
  C3. When the edited amount is the empty string or the string \<open>"0"\<close>,
  \<open>handleAmountChange\<close> returns with both amount inputs set to that string, the price
  impact 0, \<open>hasSwaps\<close> false and \<open>returnAmount\<close> zero, and calls no collaborator: the log of
  calls is as it was, so the routing engine is not invoked.
\<close>

theorem zero_amount_short_circuit:
  assumes "edited_amount s = [] \<or> edited_amount s = ''0''"
  shows "\<exists>s'. handleAmountChange d w s = Return s'
              \<and> tokenInAmountInput s' = edited_amount s
              \<and> tokenOutAmountInput s' = edited_amount s
              \<and> priceImpact s' = 0
              \<and> \<not> hasSwaps (sorReturn s')
              \<and> returnAmount (sorReturn s') = 0
              \<and> calls s' = calls s"
  unfolding zero_run[OF assms] by (simp add: resetInputAmounts_def)

theorem zero_amount_short_circuit_witness:
  "edited_amount (ex_swap True ''0'' ''7'') = ''0''
   \<and> (\<exists>s'. handleAmountChange ex_deps (ex_world (ex_route 1 ''0xdai'' ''0xusdc'' 5))
              (ex_swap True ''0'' ''7'') = Return s'
            \<and> tokenInAmountInput s' = ''0'' \<and> tokenOutAmountInput s' = ''0''
            \<and> priceImpact s' = 0 \<and> \<not> hasSwaps (sorReturn s')
            \<and> returnAmount (sorReturn s') = 0 \<and> calls s' = [])"
proof -
  have h: "edited_amount (ex_swap True ''0'' ''7'') = ''0''"
    by (simp add: edited_amount_def ex_defs)
  have c: "calls (ex_swap True ''0'' ''7'') = []"
    by (simp add: ex_defs)
  from zero_amount_short_circuit[of "ex_swap True ''0'' ''7''" ex_deps
        "ex_world (ex_route 1 ''0xdai'' ''0xusdc'' 5)"] h c
  show ?thesis by simp
qed

text \<open>
  C4, as the code has it. When \<open>handleAmountChange\<close> goes through the routing engine
  (the amount is neither \<open>""\<close> nor \<open>"0"\<close>, both tokens are set, the pair is not a wrap or
  unwrap pair and pool data is available) and returns, the high-price-impact flag is set
  exactly when the price impact is at least \<open>0.05\<close>.
\<close>

theorem high_impact_flag:
  assumes "reaches_routing s" and "handleAmountChange d w s = Return s'"
  shows "highPriceImpact s' = (5 / 100 \<le> priceImpact s')"
  using routed_Return[OF assms]
  by (auto simp: HIGH_PRICE_IMPACT_THRESHOLD_def)

theorem high_impact_flag_witness:
  "reaches_routing (ex_dai_weth ''0.000000000000000105'')
   \<and> ex_high_quote = Return (state_of ex_high_quote)
   \<and> priceImpact (state_of ex_high_quote) = 5 / 100
   \<and> highPriceImpact (state_of ex_high_quote)"
proof -
  have r: "reaches_routing (ex_dai_weth ''0.000000000000000105'')"
    by (simp add: reaches_routing_def edited_amount_def)
  obtain s1 where s1: "ex_high_quote = Return s1" "priceImpact s1 = 5 / 100"
    using ex_high_quote_run by blast
  have "highPriceImpact s1"
    using high_impact_flag[OF r s1(1)[unfolded ex_high_quote_def]] s1(2) by simp
  then show ?thesis
    unfolding s1(1) using r s1(2) by simp
qed

text \<open>
  C4 as stated also covers the runs that return before the routing engine is reached,
  and those leave the flag as it was: after a quote with impact \<open>0.05\<close> has set the flag,
  clearing the amount resets the price impact to 0 and the flag stays set.
\<close>

theorem flag_kept_on_zero_amount:
  "ex_then_cleared = Return (state_of ex_then_cleared)
   \<and> priceImpact (state_of ex_then_cleared) = 0
   \<and> highPriceImpact (state_of ex_then_cleared)
   \<and> highPriceImpact (state_of ex_then_cleared)
       \<noteq> (5 / 100 \<le> priceImpact (state_of ex_then_cleared))"
proof -
  obtain s1 where s1: "ex_high_quote = Return s1" "highPriceImpact s1" "exactIn s1"
    using ex_high_quote_run by blast
  have "edited_amount (s1\<lparr>tokenInAmountInput := []\<rparr>) = []"
    using s1 by (simp add: edited_amount_def)
  then have "ex_then_cleared = Return (resetInputAmounts [] (s1\<lparr>tokenInAmountInput := []\<rparr>))"
    unfolding ex_then_cleared_def s1(1)
    using zero_run[of "s1\<lparr>tokenInAmountInput := []\<rparr>" ex_deps] by simp
  then obtain s2 where s2: "ex_then_cleared = Return s2" "priceImpact s2 = 0" "highPriceImpact s2"
    using s1 by (simp add: resetInputAmounts_def)
  show ?thesis
    unfolding s2(1) using s2(2,3) by simp
qed

text \<open>
  C5. When a routed quote has a route and every collaborator answers, \<open>handleAmountChange\<close>
  returns with the price impact equal to the larger of the computed impact (the result
  of \<open>calcPriceImpact\<close> read as an 18-decimal number) and \<open>0.0001\<close>; so it is \<open>0.0001\<close>
  whenever the computed impact is below that, and never zero.
\<close>

theorem impact_floor:
  assumes "reaches_routing s"
    and "setCostOutputToken w
           (if exactIn s then tokenOutAddressInput s else tokenInAddressInput s)
           (getTokenDecimals d
              (if exactIn s then tokenOutAddressInput s else tokenInAddressInput s))
           (calculateEthPriceInToken d
              (if exactIn s then tokenOutAddressInput s else tokenInAddressInput s)) = Inr u"
    and "parseUnits (edited_amount s)
           (getTokenDecimals d
              (if exactIn s then tokenInAddressInput s else tokenOutAddressInput s)) = Inr scaled"
    and "getBestSwap w (tokenInAddressInput s) (tokenOutAddressInput s)
           (getTokenDecimals d (tokenInAddressInput s))
           (getTokenDecimals d (tokenOutAddressInput s))
           (if exactIn s then SwapExactIn else SwapExactOut) scaled = Inr sr"
    and "hasSwaps sr"
    and "(if adjustedPiAmount_converts d (tokenOutAddressInput s)
          then convertStEthWrap w (returnAmount sr) True
          else Inr (returnAmount sr)) = Inr adjusted"
    and "calcPriceImpact
           (getTokenDecimals d
              (if exactIn s then tokenOutAddressInput s else tokenInAddressInput s))
           adjusted scaled sr = Inr c"
  shows "\<exists>s'. handleAmountChange d w s = Return s'
              \<and> sorReturn s' = sr
              \<and> priceImpact s' = max (of_int c / 10 ^ 18) (1 / 10000)
              \<and> (of_int c / 10 ^ 18 < (1 / 10000 :: real) \<longrightarrow> priceImpact s' = 1 / 10000)
              \<and> priceImpact s' \<noteq> 0"
proof -
  obtain m where m: "sorManager s = Some m"
    using routed_manager[OF assms(1)] by blast
  show ?thesis
    unfolding handleAmountChange_routed[OF assms(1)]
    using assms(2-7) m
    by (cases "exactIn s"; cases "adjustedPiAmount_converts d (tokenOutAddressInput s)")
       (simp_all add: after_cost after_best after_adjusted run_simps3 hac_finish_cases
          MIN_PRICE_IMPACT_def Number_formatUnits_def max_def)
qed

theorem impact_floor_witness:
  "reaches_routing (ex_dai_weth ''0.0000000000000001'')
   \<and> hasSwaps (ex_route 11 ''0xdai'' ''0xweth'' 101)
   \<and> calcPriceImpact (Some 18) 101 100 (ex_route 11 ''0xdai'' ''0xweth'' 101)
       = Inr (- 9900990099009901)
   \<and> (\<exists>s'. handleAmountChange ex_deps (ex_world (ex_route 11 ''0xdai'' ''0xweth'' 101))
              (ex_dai_weth ''0.0000000000000001'') = Return s'
            \<and> sorReturn s' = ex_route 11 ''0xdai'' ''0xweth'' 101
            \<and> priceImpact s' = 1 / 10000)"
proof -
  have r: "reaches_routing (ex_dai_weth ''0.0000000000000001'')"
    by (simp add: reaches_routing_def edited_amount_def)
  from impact_floor[OF r, of "ex_world (ex_route 11 ''0xdai'' ''0xweth'' 101)" ex_deps "()"
         100 "ex_route 11 ''0xdai'' ''0xweth'' 101" 101 "- 9900990099009901"] r
  show ?thesis
    by (auto simp: edited_amount_def)
qed

text \<open>
  C6. When the routing engine answers a routed quote with no route (\<open>hasSwaps\<close> false),
  \<open>handleAmountChange\<close> returns with the price impact exactly 0, which is not the floor
  \<open>0.0001\<close>.
\<close>

theorem no_route_zero_impact:
  assumes "reaches_routing s"
    and "setCostOutputToken w
           (if exactIn s then tokenOutAddressInput s else tokenInAddressInput s)
           (getTokenDecimals d
              (if exactIn s then tokenOutAddressInput s else tokenInAddressInput s))
           (calculateEthPriceInToken d
              (if exactIn s then tokenOutAddressInput s else tokenInAddressInput s)) = Inr u"
    and "parseUnits (edited_amount s)
           (getTokenDecimals d
              (if exactIn s then tokenInAddressInput s else tokenOutAddressInput s)) = Inr scaled"
    and "getBestSwap w (tokenInAddressInput s) (tokenOutAddressInput s)
           (getTokenDecimals d (tokenInAddressInput s))
           (getTokenDecimals d (tokenOutAddressInput s))
           (if exactIn s then SwapExactIn else SwapExactOut) scaled = Inr sr"
    and "\<not> hasSwaps sr"
  shows "\<exists>s'. handleAmountChange d w s = Return s'
              \<and> sorReturn s' = sr
              \<and> priceImpact s' = 0
              \<and> priceImpact s' \<noteq> MIN_PRICE_IMPACT"
proof -
  obtain m where m: "sorManager s = Some m"
    using routed_manager[OF assms(1)] by blast
  show ?thesis
    unfolding handleAmountChange_routed[OF assms(1)]
    using assms(2-5) m
    by (cases "exactIn s")
       (simp_all add: after_cost after_best run_simps3 hac_finish_cases MIN_PRICE_IMPACT_def)
qed

theorem no_route_zero_impact_witness:
  "reaches_routing (ex_swap True ''1'' [])
   \<and> \<not> hasSwaps (ex_no_route 13)
   \<and> (\<exists>s'. handleAmountChange ex_deps (ex_world (ex_no_route 13)) (ex_swap True ''1'' [])
              = Return s'
            \<and> sorReturn s' = ex_no_route 13
            \<and> priceImpact s' = 0
            \<and> priceImpact s' \<noteq> MIN_PRICE_IMPACT)"
proof -
  have r: "reaches_routing (ex_swap True ''1'' [])"
    by (simp add: reaches_routing_def edited_amount_def)
  from no_route_zero_impact[OF r, of "ex_world (ex_no_route 13)" ex_deps "()"
         1000000000000000000 "ex_no_route 13"] r
  show ?thesis
    by (simp add: edited_amount_def)
qed

text \<open>
  C7. The factor \<open>f\<close> is \<open>1 + slippageBufferRate\<close> scaled to 18 decimals as the code has it:
  what \<open>parseFixed\<close> reads, at 18 decimals, from the string printed for the sum. For a
  non-negative amount \<open>a\<close> and a positive factor \<open>f\<close> the minimum out is
  \<open>floor (a * 10^18 / f)\<close> and the maximum in is \<open>floor (a * f / 10^18)\<close>. When the sum
  prints as \<open>"1.01"\<close>, as it does for the rate 0.01, the limits of the amount 1000 are 990
  and 1010.
\<close>

theorem slippage_limits:
  assumes "0 \<le> a"
    and "parseFixed (number_String d (number_plus d 1 (slippageBufferRate s))) (Some 18) = Inr f"
    and "0 < f"
  shows "getMinOut d s a = Inr \<lfloor>(of_int (a * 10 ^ 18) :: real) / of_int f\<rfloor>
       \<and> getMaxIn d s a = Inr \<lfloor>(of_int (a * f) :: real) / of_int (10 ^ 18)\<rfloor>
       \<and> (number_String d (number_plus d 1 (slippageBufferRate s)) = ''1.01'' \<longrightarrow>
            getMinOut d s 1000 = Inr 990 \<and> getMaxIn d s 1000 = Inr 1010)"
proof -
  have "getMinOut d s a = Inr ((a * 10 ^ 18) div f)"
    using assms by (simp add: getMinOut_def ONE_def bn_div_nonneg)
  moreover have "getMaxIn d s a = Inr ((a * f) div 10 ^ 18)"
    using assms by (simp add: getMaxIn_def ONE_def bn_div_nonneg)
  moreover have "getMinOut d s 1000 = Inr 990 \<and> getMaxIn d s 1000 = Inr 1010"
    if "number_String d (number_plus d 1 (slippageBufferRate s)) = ''1.01''"
    using that by (simp add: getMinOut_def getMaxIn_def parse_one_point_01 ONE_def bn_div_def)
  ultimately show ?thesis
    unfolding floor_divide_of_int_eq by simp
qed

theorem slippage_limits_witness:
  "number_String ex_deps (number_plus ex_deps 1 (slippageBufferRate (ex_swap True ''1000'' ''1000'')))
     = ''1.01''
   \<and> parseFixed ''1.01'' (Some 18) = Inr 1010000000000000000
   \<and> getMinOut ex_deps (ex_swap True ''1000'' ''1000'') 1000 = Inr 990
   \<and> getMaxIn ex_deps (ex_swap True ''1000'' ''1000'') 1000 = Inr 1010"
proof -
  have p: "number_String ex_deps
             (number_plus ex_deps 1 (slippageBufferRate (ex_swap True ''1000'' ''1000'')))
           = ''1.01''"
    unfolding ex_swap_rate by (rule ex_printed_factor)
  have h: "parseFixed (number_String ex_deps
             (number_plus ex_deps 1 (slippageBufferRate (ex_swap True ''1000'' ''1000''))))
             (Some 18) = Inr 1010000000000000000"
    unfolding p by (rule parse_one_point_01)
  from slippage_limits[OF _ h, of 1000] p parse_one_point_01 show ?thesis
    by simp
qed

text \<open>
  C8. When \<open>trade\<close> reaches a submission (wrap, unwrap, swap in or swap out) and the
  submission fails with an error, \<open>trade\<close> returns with the error's message in
  \<open>submissionError\<close> and with \<open>trading\<close> and \<open>confirming\<close> false; exactly one submission was
  made, and the last call is the report of the error.
\<close>

theorem trade_submission_failure:
  assumes "trade_start d cb s = Await k s1" and "ask w k = ATx (Inl e)"
  shows "\<exists>s'. trade d w cb s = Return s'
              \<and> submissionError s' = Some (message e)
              \<and> \<not> trading s' \<and> \<not> confirming s'
              \<and> length (submissions s') = Suc (length (submissions s))
              \<and> calls s' = calls s1 @ [CallCaptureException e]"
proof -
  have run: "trade d w cb s = deliver d k (ATx (Inl e)) s1"
    using assms by (simp add: trade_def run_simps3)
  from trade_start_Await[OF assms(1)] obtain c where
    s1: "s1 = record_call c ((record_call (CallTrackGoal ''ClickSwap'') s)
                  \<lparr>trading := True, confirming := True, submissionError := None\<rparr>)"
    and k: "(\<exists>a n. k = AwaitWrap cb a n \<and> c = CallWrap a n)
              \<or> (\<exists>a n. k = AwaitUnwrap cb a n \<and> c = CallUnwrap a n)
              \<or> (\<exists>sr a m. k = AwaitSwapIn cb sr a m \<and> c = CallSwapIn sr a m)
              \<or> (\<exists>sr a m. k = AwaitSwapOut cb sr a m \<and> c = CallSwapOut sr a m)"
    by blast
  from k have "deliver d k (ATx (Inl e)) s1 = Return (trade_catch e s1)"
    by (auto simp: trade_after_submit_def)
  moreover from k have "length (submissions s1) = Suc (length (submissions s))"
    unfolding s1 by (auto simp: submissions_log)
  ultimately show ?thesis
    unfolding run by (simp add: trade_catch_def submissions_log)
qed

theorem trade_submission_failure_witness:
  "ask ((ex_world (ex_route 11 ''0xdai'' ''0xusdc'' 990000))
          \<lparr>swapIn := (\<lambda>r a m. Inl (Rejected ''User denied transaction signature''))\<rparr>)
       (AwaitSwapIn None (ex_route 11 ''0xdai'' ''0xusdc'' 990000) 1000000000000000000 980198)
     = ATx (Inl (Rejected ''User denied transaction signature''))
   \<and> (\<exists>s'. trade ex_deps
            ((ex_world (ex_route 11 ''0xdai'' ''0xusdc'' 990000))
               \<lparr>swapIn := (\<lambda>r a m. Inl (Rejected ''User denied transaction signature''))\<rparr>)
            None
            ((ex_swap True ''1'' ''0.99'')
               \<lparr>sorReturn := ex_route 11 ''0xdai'' ''0xusdc'' 990000\<rparr>) = Return s'
         \<and> submissionError s' = Some ''User denied transaction signature''
         \<and> \<not> trading s' \<and> \<not> confirming s'
         \<and> length (submissions s') = 1)"
proof -
  have a: "ask ((ex_world (ex_route 11 ''0xdai'' ''0xusdc'' 990000))
          \<lparr>swapIn := (\<lambda>r a m. Inl (Rejected ''User denied transaction signature''))\<rparr>)
       (AwaitSwapIn None (ex_route 11 ''0xdai'' ''0xusdc'' 990000) 1000000000000000000 980198)
     = ATx (Inl (Rejected ''User denied transaction signature''))"
    by simp
  have n: "submissions ((ex_swap True ''1'' ''0.99'')
               \<lparr>sorReturn := ex_route 11 ''0xdai'' ''0xusdc'' 990000\<rparr>) = []"
    by (simp add: submissions_def)
  from trade_submission_failure[OF ex_trade_start a] a n show ?thesis
    by auto
qed

text \<open>
  C9. When the amount passed as \<open>tokenAmount\<close> is positive and \<open>marketSpNormalised\<close>
  parses to a positive 18-decimal value, \<open>calcPriceImpact\<close> never fails with a division by
  zero; with the token's decimals known both divisions succeed and it returns a value.
\<close>

theorem calcPriceImpact_total:
  assumes "0 < tokenAmount"
    and "parseUnits_toFixed (marketSpNormalised swapReturn) = Inr sp"
    and "0 < sp"
  shows "calcPriceImpact tokenDecimals tokenAmount tokenAmountScaled swapReturn
           \<noteq> Inl DivisionByZero
       \<and> (\<forall>n. tokenDecimals = Some n \<longrightarrow>
            (\<exists>effectivePrice q.
               bn_div (tokenAmountScaled * 10 ^ n) tokenAmount = Inr effectivePrice
             \<and> bn_div (effectivePrice * 10 ^ 18) sp = Inr q
             \<and> calcPriceImpact tokenDecimals tokenAmount tokenAmountScaled swapReturn
                 = Inr (q - ONE)))"
  using assms
  by (auto simp: calcPriceImpact_def bn_pow10_def bn_div_def Let_def split: option.splits)

theorem calcPriceImpact_total_witness:
  "(0::int) < 990000
   \<and> parseUnits_toFixed (marketSpNormalised (ex_route 1 ''0xdai'' ''0xusdc'' 990000))
       = Inr 1000000000000000000
   \<and> calcPriceImpact (Some 6) 990000 1000000000000000000
       (ex_route 1 ''0xdai'' ''0xusdc'' 990000) = Inr 10101010101010101"
proof -
  have h: "parseUnits_toFixed (marketSpNormalised (ex_route 1 ''0xdai'' ''0xusdc'' 990000))
             = Inr 1000000000000000000"
    by (simp add: parseUnits_toFixed_def ex_defs)
  from calcPriceImpact_total[OF _ h, of 990000 "Some 6" 1000000000000000000] h
  show ?thesis
    by (auto simp: bn_div_def ONE_def)
qed

text \<open>
  C10. Every quote that \<open>getQuote\<close> returns has both fee fields equal to \<open>"0"\<close>, a
  maximum in of zero when \<open>tokenInAmountScaled\<close> was not given and a minimum out of zero
  when \<open>tokenOutAmountScaled\<close> was not given; with neither given \<open>getQuote\<close> returns.
\<close>

theorem getQuote_fees:
  "(getQuote d s = Inr q \<longrightarrow>
      feeAmountInToken q = ''0'' \<and> feeAmountOutToken q = ''0''
      \<and> (tokenInAmountScaled s = None \<longrightarrow> maximumInAmount q = 0)
      \<and> (tokenOutAmountScaled s = None \<longrightarrow> minimumOutAmount q = 0))
   \<and> (tokenInAmountScaled s = None \<and> tokenOutAmountScaled s = None \<longrightarrow>
        getQuote d s = Inr \<lparr>feeAmountInToken = ''0'', feeAmountOutToken = ''0'',
                          maximumInAmount = 0, minimumOutAmount = 0\<rparr>)"
  by (auto simp: getQuote_def split: sum.splits option.splits)

theorem getQuote_fees_witness:
  "tokenInAmountScaled (ex_swap True ''1'' []) = None
   \<and> tokenOutAmountScaled (ex_swap True ''1'' []) = None
   \<and> getQuote ex_deps (ex_swap True ''1'' []) =
        Inr \<lparr>feeAmountInToken = ''0'', feeAmountOutToken = ''0'',
             maximumInAmount = 0, minimumOutAmount = 0\<rparr>"
proof -
  have h: "tokenInAmountScaled (ex_swap True ''1'' []) = None
         \<and> tokenOutAmountScaled (ex_swap True ''1'' []) = None"
    by (simp add: ex_defs)
  from getQuote_fees[of ex_deps "ex_swap True ''1'' []"] h show ?thesis
    by blast
qed

end
